theory Spec2Isabelle
  imports Main "HOL-Library.Sublist" "HOL-Library.AList"
begin

section \<open>Values of the host language and the store\<close>

text \<open>
  The reporters of \<^verbatim>\<open>sql-error-codes.ts\<close> are TypeScript closures. Their static
  types are erased when they run, so a parameter record is modelled as a value of the
  host language, and every way a renderer can fail on such a value (reading a property
  of \<^verbatim>\<open>undefined\<close>, calling a method a value does not have, converting an object
  that cannot be converted) is a branch of the model.

  A number is an IEEE double. A finite non-zero double is given by its sign and by the
  integers \<open>s\<close> and \<open>n\<close> of the language standard's \<^verbatim>\<open>Number::toString\<close>: \<open>s\<close> holds the
  \<open>k\<close> digits of the shortest decimal that reads back as the double, and the double is
  \<open>s * 10 ^ (n - k)\<close>. The number 2 is \<open>Finite False 2 1\<close>, 0.5 is \<open>Finite False 5 0\<close>.

  An object is either written out by its content (\<open>VObj\<close>) or it is a reference
  (\<open>VRef\<close>) to an object of the store. AST nodes and diagnostic-info objects have
  identity and are always references; a parameter record may be either. An array is
  given by its elements.
\<close>

datatype number = NaN | PosInfinity | NegInfinity | Zero | Finite bool nat int

datatype val =
    VUndefined
  | VNull
  | VBool bool
  | VNum number
  | VStr string
  | VArr "val list"
  | VObj "(string \<times> val) list"
  | VRef nat

text \<open>
  What a reporter can raise: the host's \<^verbatim>\<open>TypeError\<close>, or the value that external code
  (the sink, a generator handed to the factory, a conversion method of an object) throws.
\<close>

datatype exn = TypeError | Thrown val

text \<open>
  The store is a list of objects addressed by position. A new object goes at the end, so
  its address is fresh and every older object keeps its address. \<open>world\<close> is the state of
  the external collaborators (the validator behind the sink).
\<close>

type_synonym object = "(string \<times> val) list"

record 'w state =
  heap :: "object list"
  world :: 'w

text \<open>
  A computation of the host language: it reads and may change the state, and it returns
  a value or raises.
\<close>

type_synonym ('a, 'w) prog = "'w state \<Rightarrow> exn + 'a \<times> 'w state"

definition returning :: "'a \<Rightarrow> ('a, 'w) prog" where
  "returning a st = Inr (a, st)"

definition and_then :: "('a, 'w) prog \<Rightarrow> ('a \<Rightarrow> ('b, 'w) prog) \<Rightarrow> ('b, 'w) prog" where
  "and_then m f st = (case m st of Inl e \<Rightarrow> Inl e | Inr (a, st') \<Rightarrow> f a st')"

subsection \<open>Conversion to text\<close>

fun digits :: "nat \<Rightarrow> string" where
  "digits n =
     (if n < 10 then [''0123456789'' ! n]
      else digits (n div 10) @ [''0123456789'' ! (n mod 10)])"

declare digits.simps [simp del]

text \<open>\<^verbatim>\<open>Number::toString\<close> for radix 10, on a positive finite number \<open>(s, n)\<close>.\<close>

definition exponent_text :: "int \<Rightarrow> string" where
  "exponent_text e = (if e < 0 then ''-'' else ''+'') @ digits (nat \<bar>e\<bar>)"

definition positive_text :: "nat \<Rightarrow> int \<Rightarrow> string" where
  "positive_text s n =
     (let ds = digits s; k = int (length ds) in
      if k \<le> n \<and> n \<le> 21 then ds @ replicate (nat (n - k)) CHR ''0''
      else if 0 < n \<and> n \<le> 21 then take (nat n) ds @ ''.'' @ drop (nat n) ds
      else if -6 < n \<and> n \<le> 0 then ''0.'' @ replicate (nat (- n)) CHR ''0'' @ ds
      else if k = 1 then ds @ ''e'' @ exponent_text (n - 1)
      else take 1 ds @ ''.'' @ drop 1 ds @ ''e'' @ exponent_text (n - 1))"

fun Number_toString :: "number \<Rightarrow> string" where
  "Number_toString NaN = ''NaN''"
| "Number_toString PosInfinity = ''Infinity''"
| "Number_toString NegInfinity = ''-Infinity''"
| "Number_toString Zero = ''0''"
| "Number_toString (Finite neg s n) = (if neg then ''-'' else []) @ positive_text s n"

text \<open>The text of a primitive value. (It is not applied to anything else.)\<close>

fun primitive_text :: "val \<Rightarrow> string" where
  "primitive_text VUndefined = ''undefined''"
| "primitive_text VNull = ''null''"
| "primitive_text (VBool b) = (if b then ''true'' else ''false'')"
| "primitive_text (VNum x) = Number_toString x"
| "primitive_text (VStr s) = s"
| "primitive_text v = []"

fun is_primitive :: "val \<Rightarrow> bool" where
  "is_primitive (VArr xs) = False"
| "is_primitive (VObj fs) = False"
| "is_primitive (VRef a) = False"
| "is_primitive v = True"

text \<open>
  Converting an object to a primitive (\<^verbatim>\<open>ToPrimitive\<close> with hint string) is the business
  of the object: it runs the object's own or inherited \<^verbatim>\<open>toString\<close> and \<^verbatim>\<open>valueOf\<close>,
  which may be user code, may change the state and may throw. The catalogue is verified
  for every such behaviour: the conversion is a parameter of the model.
\<close>

type_synonym 'w host = "val \<Rightarrow> (val, 'w) prog"

text \<open>
  \<^verbatim>\<open>Array.prototype.join\<close> puts the separator between the texts of the elements; the text
  of an element that is \<^verbatim>\<open>undefined\<close> or \<^verbatim>\<open>null\<close> is empty.
\<close>

fun intercalate :: "string \<Rightarrow> string list \<Rightarrow> string" where
  "intercalate sep [] = []"
| "intercalate sep [x] = x"
| "intercalate sep (x # y # ys) = x @ sep @ intercalate sep (y # ys)"

text \<open>
  \<open>ToString\<close> is what a template literal applies to an interpolated value. A primitive
  has its text; an object is converted by the host, and a result that is no primitive is
  a \<^verbatim>\<open>TypeError\<close>; an array is joined with commas, its elements converted from left to
  right.
\<close>

fun ToString :: "'w host \<Rightarrow> val \<Rightarrow> (string, 'w) prog"
  and element_texts :: "'w host \<Rightarrow> val list \<Rightarrow> (string list, 'w) prog" where
  "ToString host (VArr xs) st =
     (case element_texts host xs st of
        Inl e \<Rightarrow> Inl e
      | Inr (ts, st') \<Rightarrow> Inr (intercalate '','' ts, st'))"
| "ToString host (VObj fs) st =
     (case host (VObj fs) st of
        Inl e \<Rightarrow> Inl e
      | Inr (p, st') \<Rightarrow> if is_primitive p then Inr (primitive_text p, st') else Inl TypeError)"
| "ToString host (VRef a) st =
     (case host (VRef a) st of
        Inl e \<Rightarrow> Inl e
      | Inr (p, st') \<Rightarrow> if is_primitive p then Inr (primitive_text p, st') else Inl TypeError)"
| "ToString host v st = Inr (primitive_text v, st)"
| "element_texts host [] st = Inr ([], st)"
| "element_texts host (x # xs) st =
     (case (if x = VUndefined \<or> x = VNull then Inr ([], st) else ToString host x st) of
        Inl e \<Rightarrow> Inl e
      | Inr (t, st') \<Rightarrow>
          (case element_texts host xs st' of
             Inl e \<Rightarrow> Inl e
           | Inr (ts, st'') \<Rightarrow> Inr (t # ts, st'')))"

definition join :: "'w host \<Rightarrow> string \<Rightarrow> val list \<Rightarrow> (string, 'w) prog" where
  "join host sep xs st =
     (case element_texts host xs st of
        Inl e \<Rightarrow> Inl e
      | Inr (ts, st') \<Rightarrow> Inr (intercalate sep ts, st'))"

subsection \<open>Property access and method calls\<close>

text \<open>
  The fields of an object value. A reference outside the store denotes no object.
\<close>

fun fields_of :: "object list \<Rightarrow> val \<Rightarrow> object option" where
  "fields_of h (VObj fs) = Some fs"
| "fields_of h (VRef a) = (if a < length h then Some (h ! a) else None)"
| "fields_of h v = None"

text \<open>
  Reading a property (also by destructuring) of \<^verbatim>\<open>undefined\<close> or \<^verbatim>\<open>null\<close> raises
  \<^verbatim>\<open>TypeError\<close>; an absent property reads as \<^verbatim>\<open>undefined\<close>. Properties are data
  properties, and the names the catalogue reads are not defined on arrays or primitives.
\<close>

fun get_prop :: "val \<Rightarrow> string \<Rightarrow> (val, 'w) prog" where
  "get_prop VUndefined k st = Inl TypeError"
| "get_prop VNull k st = Inl TypeError"
| "get_prop (VObj fs) k st =
     Inr (case map_of fs k of Some v \<Rightarrow> v | None \<Rightarrow> VUndefined, st)"
| "get_prop (VRef a) k st =
     (case fields_of (heap st) (VRef a) of
        None \<Rightarrow> Inl TypeError
      | Some fs \<Rightarrow> Inr (case map_of fs k of Some v \<Rightarrow> v | None \<Rightarrow> VUndefined, st))"
| "get_prop v k st = Inr (VUndefined, st)"

text \<open>
  \<^verbatim>\<open>x.join(sep)\<close> and \<^verbatim>\<open>x.map(f)\<close>: only an array has these methods, on anything else
  the call raises \<^verbatim>\<open>TypeError\<close>. \<open>map_values\<close> applies the callback from left to right and
  stops at the first element on which it raises.
\<close>

fun call_join :: "'w host \<Rightarrow> val \<Rightarrow> string \<Rightarrow> (string, 'w) prog" where
  "call_join host (VArr xs) sep st = join host sep xs st"
| "call_join host v sep st = Inl TypeError"

fun map_values :: "(val \<Rightarrow> (val, 'w) prog) \<Rightarrow> val list \<Rightarrow> (val list, 'w) prog" where
  "map_values f [] st = Inr ([], st)"
| "map_values f (x # xs) st =
     (case f x st of
        Inl e \<Rightarrow> Inl e
      | Inr (y, st') \<Rightarrow>
          (case map_values f xs st' of
             Inl e \<Rightarrow> Inl e
           | Inr (ys, st'') \<Rightarrow> Inr (y # ys, st'')))"

fun call_map :: "val \<Rightarrow> (val \<Rightarrow> (val, 'w) prog) \<Rightarrow> (val, 'w) prog" where
  "call_map (VArr xs) f st =
     (case map_values f xs st of Inl e \<Rightarrow> Inl e | Inr (ys, st') \<Rightarrow> Inr (VArr ys, st'))"
| "call_map v f st = Inl TypeError"

definition quoted :: "string \<Rightarrow> string" where
  "quoted s = [CHR 0x27] @ s @ [CHR 0x27]"

text \<open>
  The conversion of plain data objects, for the examples: an object that defines no
  \<^verbatim>\<open>toString\<close> of its own inherits the one that answers \<^verbatim>\<open>[object Object]\<close>; one whose
  own \<^verbatim>\<open>toString\<close> is data, not a function, has no callable conversion that yields a
  primitive, and the host throws \<^verbatim>\<open>TypeError\<close>. Nothing changes the state.
\<close>

definition plain_objects :: "'w host" where
  "plain_objects v st =
     (case fields_of (heap st) v of
        None \<Rightarrow> Inl TypeError
      | Some fs \<Rightarrow>
          (case map_of fs ''toString'' of
             None \<Rightarrow> Inr (VStr ''[object Object]'', st)
           | Some m \<Rightarrow> Inl TypeError))"

section \<open>The sink and the reporter factory\<close>

datatype severity = Error | Warning | Info | Hint

text \<open>
  The validation acceptor: \<^verbatim>\<open>accept(severity, message, info)\<close>, returning nothing. The
  info object is passed by its address in the store.
\<close>

type_synonym 'w sink =
  "severity \<Rightarrow> string \<Rightarrow> nat \<Rightarrow> 'w state \<Rightarrow> exn + 'w state"

record ('p, 'w) reporter =
  call :: "nat \<Rightarrow> 'p \<Rightarrow> 'w sink \<Rightarrow> 'w state \<Rightarrow> exn + 'w state"
  Code :: string

definition field :: "object list \<Rightarrow> nat \<Rightarrow> string \<Rightarrow> val option" where
  "field h a k = (if a < length h then map_of (h ! a) k else None)"

text \<open>An object literal: a new object at a fresh address.\<close>

definition new_object :: "object \<Rightarrow> (nat, 'w) prog" where
  "new_object obj st = Inr (length (heap st), st\<lparr>heap := heap st @ [obj]\<rparr>)"

text \<open>
  The assignment \<^verbatim>\<open>info.code = code\<close>. An address outside the store denotes no object,
  and the assignment fails as it does on \<^verbatim>\<open>undefined\<close>.
\<close>

definition set_prop :: "nat \<Rightarrow> string \<Rightarrow> val \<Rightarrow> 'w state \<Rightarrow> exn + 'w state" where
  "set_prop a k v st =
     (if a < length (heap st)
      then Inr (st\<lparr>heap := (heap st)[a := AList.update k v (heap st ! a)]\<rparr>)
      else Inl TypeError)"

text \<open>
  \<^verbatim>\<open>SqlErrorFactory.create\<close>. The arguments of \<^verbatim>\<open>accept\<close> are evaluated from left to
  right: the message first, then the immediately applied function that resolves the
  target and stamps it with the code. The two generators are arbitrary functions of the
  host language: they may read and change the state, and they may throw.
\<close>

definition stamped :: "string \<Rightarrow> (nat \<Rightarrow> (nat, 'w) prog) \<Rightarrow> nat \<Rightarrow> (nat, 'w) prog" where
  "stamped code diagnosticGenerator node st =
     (case diagnosticGenerator node st of
        Inl e \<Rightarrow> Inl e
      | Inr (info, st') \<Rightarrow>
          (case set_prop info ''code'' (VStr code) st' of
             Inl e \<Rightarrow> Inl e
           | Inr st'' \<Rightarrow> Inr (info, st'')))"

definition create ::
  "string \<Rightarrow> severity \<Rightarrow> ('p \<Rightarrow> (string, 'w) prog) \<Rightarrow> (nat \<Rightarrow> (nat, 'w) prog) \<Rightarrow>
   ('p, 'w) reporter" where
  "create code severity messageGenerator diagnosticGenerator =
     \<lparr> call = (\<lambda>node props accept st.
          case messageGenerator props st of
            Inl e \<Rightarrow> Inl e
          | Inr (message, st1) \<Rightarrow>
              (case stamped code diagnosticGenerator node st1 of
                 Inl e \<Rightarrow> Inl e
               | Inr (info, st2) \<Rightarrow> accept severity message info st2)),
       Code = code \<rparr>"

section \<open>The catalogue\<close>

subsection \<open>Message renderers\<close>

text \<open>
  Every renderer of the catalogue is a template literal over the destructured parameter
  record. The properties named in the parameter pattern are read first; then the
  substitutions are evaluated and converted to text one after the other. Each step is a
  computation on the state: a read looks into the store, a conversion may run the host.
  (The result of \<^verbatim>\<open>join\<close> is a string already; its conversion is the identity.)
\<close>

definition message_DuplicatedVariableName :: "'w host \<Rightarrow> val \<Rightarrow> (string, 'w) prog" where
  "message_DuplicatedVariableName host props =
     and_then (get_prop props ''name'') (\<lambda>name.
     and_then (ToString host name) (\<lambda>n.
     returning (''Duplicated variable name '' @ quoted n @ ''.'')))"

definition message_NumericValueIsNotInteger :: "'w host \<Rightarrow> val \<Rightarrow> (string, 'w) prog" where
  "message_NumericValueIsNotInteger host props =
     and_then (get_prop props ''value'') (\<lambda>value.
     and_then (ToString host value) (\<lambda>v.
     returning (''Value '' @ quoted v @ '' is not an integer.'')))"

definition message_BinaryOperatorNotDefinedForGivenExpressions ::
  "'w host \<Rightarrow> val \<Rightarrow> (string, 'w) prog" where
  "message_BinaryOperatorNotDefinedForGivenExpressions host props =
     and_then (get_prop props ''op'') (\<lambda>op.
     and_then (get_prop props ''left'') (\<lambda>left.
     and_then (get_prop props ''right'') (\<lambda>right.
     and_then (ToString host op) (\<lambda>opText.
     and_then (get_prop left ''discriminator'') (\<lambda>leftDiscriminator.
     and_then (ToString host leftDiscriminator) (\<lambda>l.
     and_then (get_prop right ''discriminator'') (\<lambda>rightDiscriminator.
     and_then (ToString host rightDiscriminator) (\<lambda>r.
     returning (''Binary operator '' @ quoted opText @ '' is not defined for ('' @
                quoted l @ '', '' @ quoted r @ '').'')))))))))"

definition message_UnaryOperatorNotDefinedForGivenExpression ::
  "'w host \<Rightarrow> val \<Rightarrow> (string, 'w) prog" where
  "message_UnaryOperatorNotDefinedForGivenExpression host props =
     and_then (get_prop props ''op'') (\<lambda>op.
     and_then (get_prop props ''operand'') (\<lambda>operand.
     and_then (ToString host op) (\<lambda>opText.
     and_then (get_prop operand ''discriminator'') (\<lambda>discriminator.
     and_then (ToString host discriminator) (\<lambda>d.
     returning (''Unary operator '' @ quoted opText @ '' is not defined for '' @
                quoted d @ ''.''))))))"

definition message_ExpressionMustReturnABoolean :: "'w host \<Rightarrow> val \<Rightarrow> (string, 'w) prog" where
  "message_ExpressionMustReturnABoolean host operand =
     and_then (get_prop operand ''discriminator'') (\<lambda>discriminator.
     and_then (ToString host discriminator) (\<lambda>d.
     returning (''Expression must return a boolean, not a '' @ quoted d @ ''.'')))"

definition message_AllStarSelectionRequiresTableSources ::
  "'w host \<Rightarrow> val \<Rightarrow> (string, 'w) prog" where
  "message_AllStarSelectionRequiresTableSources host props =
     returning ''All-star selection requires table sources (FROM is missing).''"

definition message_TableDefinitionRequiresAtLeastOneColumn ::
  "'w host \<Rightarrow> val \<Rightarrow> (string, 'w) prog" where
  "message_TableDefinitionRequiresAtLeastOneColumn host props =
     returning ''Table definition requires at least one column.''"

definition message_SubQueriesWithinSelectStatementsMustHaveExactlyOneColumn ::
  "'w host \<Rightarrow> val \<Rightarrow> (string, 'w) prog" where
  "message_SubQueriesWithinSelectStatementsMustHaveExactlyOneColumn host props =
     returning ''Sub queries within select statements must have exactly one column.''"

definition message_CannotDeriveTypeOfExpression :: "'w host \<Rightarrow> val \<Rightarrow> (string, 'w) prog" where
  "message_CannotDeriveTypeOfExpression host props =
     returning ''Unable to derive the type of the expression.''"

definition message_TableOperationUsesTablesWithDifferentColumnCounts ::
  "'w host \<Rightarrow> val \<Rightarrow> (string, 'w) prog" where
  "message_TableOperationUsesTablesWithDifferentColumnCounts host props =
     returning (''This operation uses tables with different amounts of columns, '' @
                ''which is forbidden. Please add the missing columns.'')"

definition message_TableOperationUsesTablesWithDifferentColumnTypes ::
  "'w host \<Rightarrow> val \<Rightarrow> (string, 'w) prog" where
  "message_TableOperationUsesTablesWithDifferentColumnTypes host props =
     and_then (get_prop props ''columnIndex'') (\<lambda>columnIndex.
     and_then (ToString host columnIndex) (\<lambda>i.
     returning (''This operation uses tables with different columns types! '' @
                ''Compare the columns at index '' @ i @
                ''. They are not convertable to each other.'')))"

definition message_IncorrectGlobalReferenceTarget :: "'w host \<Rightarrow> val \<Rightarrow> (string, 'w) prog" where
  "message_IncorrectGlobalReferenceTarget host props =
     and_then (get_prop props ''expected'') (\<lambda>expected.
     and_then (get_prop props ''received'') (\<lambda>received.
     and_then (ToString host expected) (\<lambda>e.
     and_then (ToString host received) (\<lambda>r.
     returning (''Expected definition of type '' @ quoted e @
                '' but received '' @ quoted r @ ''.'')))))"

definition message_UnknownDataType :: "'w host \<Rightarrow> val \<Rightarrow> (string, 'w) prog" where
  "message_UnknownDataType host props =
     and_then (get_prop props ''dataType'') (\<lambda>dataType.
     and_then (get_prop dataType ''dataTypeNames'') (\<lambda>dataTypeNames.
     and_then (call_join host dataTypeNames '' '') (\<lambda>names.
     and_then (get_prop dataType ''arguments'') (\<lambda>arguments.
     and_then (call_map arguments (\<lambda>dt. get_prop dt ''value'')) (\<lambda>values.
     and_then (call_join host values '', '') (\<lambda>args.
     returning (''Unknown data type '' @ quoted (names @ ''('' @ args @ '')'') @ ''.'')))))))"

subsection \<open>Location resolvers\<close>

text \<open>
  \<^verbatim>\<open>(node) => ({ node, property: "name" })\<close> and \<^verbatim>\<open>(node) => ({ node })\<close>: a new
  object that refers to the node.
\<close>

definition node_property :: "string \<Rightarrow> nat \<Rightarrow> (nat, 'w) prog" where
  "node_property property node =
     new_object [(''node'', VRef node), (''property'', VStr property)]"

definition whole_node :: "nat \<Rightarrow> (nat, 'w) prog" where
  "whole_node node = new_object [(''node'', VRef node)]"

subsection \<open>The entries\<close>

datatype entry =
    DuplicatedVariableName
  | NumericValueIsNotInteger
  | BinaryOperatorNotDefinedForGivenExpressions
  | UnaryOperatorNotDefinedForGivenExpression
  | ExpressionMustReturnABoolean
  | AllStarSelectionRequiresTableSources
  | TableDefinitionRequiresAtLeastOneColumn
  | SubQueriesWithinSelectStatementsMustHaveExactlyOneColumn
  | CannotDeriveTypeOfExpression
  | TableOperationUsesTablesWithDifferentColumnCounts
  | TableOperationUsesTablesWithDifferentColumnTypes
  | IncorrectGlobalReferenceTarget
  | UnknownDataType

fun ReportAs :: "'w host \<Rightarrow> entry \<Rightarrow> (val, 'w) reporter" where
  "ReportAs host DuplicatedVariableName =
     create ''SQL00001'' Error
       (message_DuplicatedVariableName host) (node_property ''name'')"
| "ReportAs host NumericValueIsNotInteger =
     create ''SQL00002'' Error
       (message_NumericValueIsNotInteger host) (node_property ''value'')"
| "ReportAs host BinaryOperatorNotDefinedForGivenExpressions =
     create ''SQL00003'' Error
       (message_BinaryOperatorNotDefinedForGivenExpressions host)
       (node_property ''operator'')"
| "ReportAs host UnaryOperatorNotDefinedForGivenExpression =
     create ''SQL00004'' Error
       (message_UnaryOperatorNotDefinedForGivenExpression host)
       (node_property ''operator'')"
| "ReportAs host ExpressionMustReturnABoolean =
     create ''SQL00005'' Error
       (message_ExpressionMustReturnABoolean host) whole_node"
| "ReportAs host AllStarSelectionRequiresTableSources =
     create ''SQL00006'' Error
       (message_AllStarSelectionRequiresTableSources host) whole_node"
| "ReportAs host TableDefinitionRequiresAtLeastOneColumn =
     create ''SQL00007'' Error
       (message_TableDefinitionRequiresAtLeastOneColumn host) (node_property ''element'')"
| "ReportAs host SubQueriesWithinSelectStatementsMustHaveExactlyOneColumn =
     create ''SQL00008'' Error
       (message_SubQueriesWithinSelectStatementsMustHaveExactlyOneColumn host)
       (node_property ''subQuery'')"
| "ReportAs host CannotDeriveTypeOfExpression =
     create ''SQL00009'' Error
       (message_CannotDeriveTypeOfExpression host) whole_node"
| "ReportAs host TableOperationUsesTablesWithDifferentColumnCounts =
     create ''SQL00010'' Error
       (message_TableOperationUsesTablesWithDifferentColumnCounts host)
       (node_property ''operator'')"
| "ReportAs host TableOperationUsesTablesWithDifferentColumnTypes =
     create ''SQL00011'' Error
       (message_TableOperationUsesTablesWithDifferentColumnTypes host)
       (node_property ''operator'')"
| "ReportAs host IncorrectGlobalReferenceTarget =
     create ''SQL00012'' Error
       (message_IncorrectGlobalReferenceTarget host) (node_property ''element'')"
| "ReportAs host UnknownDataType =
     create ''SQL00013'' Error
       (message_UnknownDataType host) whole_node"

text \<open>The keys of \<^verbatim>\<open>ReportAs\<close>, in the order of the object literal.\<close>

definition ReportAs_keys :: "entry list" where
  "ReportAs_keys =
     [DuplicatedVariableName, NumericValueIsNotInteger,
      BinaryOperatorNotDefinedForGivenExpressions, UnaryOperatorNotDefinedForGivenExpression,
      ExpressionMustReturnABoolean, AllStarSelectionRequiresTableSources,
      TableDefinitionRequiresAtLeastOneColumn,
      SubQueriesWithinSelectStatementsMustHaveExactlyOneColumn, CannotDeriveTypeOfExpression,
      TableOperationUsesTablesWithDifferentColumnCounts,
      TableOperationUsesTablesWithDifferentColumnTypes, IncorrectGlobalReferenceTarget,
      UnknownDataType]"

subsection \<open>The declared parameter types\<close>

text \<open>
  The parameter type each entry declares, as a predicate on a value in a store.
  TypeScript types are structural: a record of the type has the listed properties and
  may have more. The record and the objects in it may be written out or be references.
\<close>

definition is_string :: "val \<Rightarrow> bool" where
  "is_string v = (case v of VStr s \<Rightarrow> True | _ \<Rightarrow> False)"

definition is_number :: "val \<Rightarrow> bool" where
  "is_number v = (case v of VNum x \<Rightarrow> True | _ \<Rightarrow> False)"

definition has_prop :: "object list \<Rightarrow> string \<Rightarrow> (val \<Rightarrow> bool) \<Rightarrow> val \<Rightarrow> bool" where
  "has_prop h k P v =
     (case fields_of h v of
        Some fs \<Rightarrow> (case map_of fs k of Some x \<Rightarrow> P x | None \<Rightarrow> False)
      | None \<Rightarrow> False)"

definition is_array_of :: "(val \<Rightarrow> bool) \<Rightarrow> val \<Rightarrow> bool" where
  "is_array_of P v = (case v of VArr xs \<Rightarrow> list_all P xs | _ \<Rightarrow> False)"

definition Nameable :: "object list \<Rightarrow> val \<Rightarrow> bool" where
  "Nameable h v = has_prop h ''name'' is_string v"

definition NumericValue :: "object list \<Rightarrow> val \<Rightarrow> bool" where
  "NumericValue h v = has_prop h ''value'' is_number v"

text \<open>
  Modelled from the spec: \<^verbatim>\<open>TypeDescriptor\<close> (\<^verbatim>\<open>sql-type-descriptors.ts\<close>), a value
  "exposing at least a discriminator label", and the operator types
  (\<^verbatim>\<open>sql-type-operators.ts\<close>), which the spec treats as strings ("empty operator
  strings").
\<close>

definition TypeDescriptor :: "object list \<Rightarrow> val \<Rightarrow> bool" where
  "TypeDescriptor h v = has_prop h ''discriminator'' is_string v"

definition BinaryOperatorMismatch :: "object list \<Rightarrow> val \<Rightarrow> bool" where
  "BinaryOperatorMismatch h v =
     (has_prop h ''op'' is_string v \<and> has_prop h ''left'' (TypeDescriptor h) v \<and>
      has_prop h ''right'' (TypeDescriptor h) v)"

definition UnaryOperatorMismatch :: "object list \<Rightarrow> val \<Rightarrow> bool" where
  "UnaryOperatorMismatch h v =
     (has_prop h ''op'' is_string v \<and> has_prop h ''operand'' (TypeDescriptor h) v)"

text \<open>
  Modelled from the spec: the generated AST types \<^verbatim>\<open>NumberLiteral\<close> and \<^verbatim>\<open>DataType\<close>
  (\<^verbatim>\<open>generated/ast.ts\<close>). The spec names the "offending data type node" and no more, so
  the two types are given by the properties the catalogue reads from them: a number
  literal has a numeric \<^verbatim>\<open>value\<close> (as \<^verbatim>\<open>NumericValue\<close> declares for it), a data type has
  an array of names and an array of number-literal arguments.
\<close>

definition NumberLiteral :: "object list \<Rightarrow> val \<Rightarrow> bool" where
  "NumberLiteral h v = has_prop h ''value'' is_number v"

definition DataType :: "object list \<Rightarrow> val \<Rightarrow> bool" where
  "DataType h v =
     (has_prop h ''dataTypeNames'' (is_array_of is_string) v \<and>
      has_prop h ''arguments'' (is_array_of (NumberLiteral h)) v)"

text \<open>
  The type \<^verbatim>\<open>{}\<close>: any value but \<^verbatim>\<open>undefined\<close> and \<^verbatim>\<open>null\<close> (a reference is a
  value when it denotes an object).
\<close>

definition EmptyRecord :: "object list \<Rightarrow> val \<Rightarrow> bool" where
  "EmptyRecord h v =
     (case v of VUndefined \<Rightarrow> False | VNull \<Rightarrow> False | VRef a \<Rightarrow> a < length h | _ \<Rightarrow> True)"

fun params_type :: "entry \<Rightarrow> object list \<Rightarrow> val \<Rightarrow> bool" where
  "params_type DuplicatedVariableName h = Nameable h"
| "params_type NumericValueIsNotInteger h = NumericValue h"
| "params_type BinaryOperatorNotDefinedForGivenExpressions h = BinaryOperatorMismatch h"
| "params_type UnaryOperatorNotDefinedForGivenExpression h = UnaryOperatorMismatch h"
| "params_type ExpressionMustReturnABoolean h = TypeDescriptor h"
| "params_type AllStarSelectionRequiresTableSources h = EmptyRecord h"
| "params_type TableDefinitionRequiresAtLeastOneColumn h = EmptyRecord h"
| "params_type SubQueriesWithinSelectStatementsMustHaveExactlyOneColumn h = EmptyRecord h"
| "params_type CannotDeriveTypeOfExpression h = EmptyRecord h"
| "params_type TableOperationUsesTablesWithDifferentColumnCounts h = EmptyRecord h"
| "params_type TableOperationUsesTablesWithDifferentColumnTypes h =
     has_prop h ''columnIndex'' is_number"
| "params_type IncorrectGlobalReferenceTarget h =
     (\<lambda>v. has_prop h ''expected'' is_string v \<and> has_prop h ''received'' is_string v)"
| "params_type UnknownDataType h = has_prop h ''dataType'' (DataType h)"

section \<open>What the spec promises, in its own words\<close>

text \<open>
  The highlighted property the spec's catalogue table declares for each entry
  (\<open>None\<close>: the whole node).
\<close>

fun spec_property :: "entry \<Rightarrow> string option" where
  "spec_property DuplicatedVariableName = Some ''name''"
| "spec_property NumericValueIsNotInteger = Some ''value''"
| "spec_property BinaryOperatorNotDefinedForGivenExpressions = Some ''operator''"
| "spec_property UnaryOperatorNotDefinedForGivenExpression = Some ''operator''"
| "spec_property ExpressionMustReturnABoolean = None"
| "spec_property AllStarSelectionRequiresTableSources = None"
| "spec_property TableDefinitionRequiresAtLeastOneColumn = Some ''element''"
| "spec_property SubQueriesWithinSelectStatementsMustHaveExactlyOneColumn = Some ''subQuery''"
| "spec_property CannotDeriveTypeOfExpression = None"
| "spec_property TableOperationUsesTablesWithDifferentColumnCounts = Some ''operator''"
| "spec_property TableOperationUsesTablesWithDifferentColumnTypes = Some ''operator''"
| "spec_property IncorrectGlobalReferenceTarget = Some ''element''"
| "spec_property UnknownDataType = None"

text \<open>
  The parameter values the spec's table lists for each entry, each in its textual form:
  a string as it is, a number as the host prints it, a type descriptor by its
  discriminator label, a data-type node by its names and its arguments' values.
\<close>

definition prop_of :: "object list \<Rightarrow> val \<Rightarrow> string \<Rightarrow> val" where
  "prop_of h v k =
     (case fields_of h v of
        Some fs \<Rightarrow> (case map_of fs k of Some x \<Rightarrow> x | None \<Rightarrow> VUndefined)
      | None \<Rightarrow> VUndefined)"

definition elements :: "val \<Rightarrow> val list" where
  "elements v = (case v of VArr xs \<Rightarrow> xs | _ \<Rightarrow> [])"

definition label :: "object list \<Rightarrow> val \<Rightarrow> string" where
  "label h t = primitive_text (prop_of h t ''discriminator'')"

fun param_texts :: "entry \<Rightarrow> object list \<Rightarrow> val \<Rightarrow> string list" where
  "param_texts DuplicatedVariableName h p = [primitive_text (prop_of h p ''name'')]"
| "param_texts NumericValueIsNotInteger h p = [primitive_text (prop_of h p ''value'')]"
| "param_texts BinaryOperatorNotDefinedForGivenExpressions h p =
     [primitive_text (prop_of h p ''op''), label h (prop_of h p ''left''),
      label h (prop_of h p ''right'')]"
| "param_texts UnaryOperatorNotDefinedForGivenExpression h p =
     [primitive_text (prop_of h p ''op''), label h (prop_of h p ''operand'')]"
| "param_texts ExpressionMustReturnABoolean h p = [label h p]"
| "param_texts AllStarSelectionRequiresTableSources h p = []"
| "param_texts TableDefinitionRequiresAtLeastOneColumn h p = []"
| "param_texts SubQueriesWithinSelectStatementsMustHaveExactlyOneColumn h p = []"
| "param_texts CannotDeriveTypeOfExpression h p = []"
| "param_texts TableOperationUsesTablesWithDifferentColumnCounts h p = []"
| "param_texts TableOperationUsesTablesWithDifferentColumnTypes h p =
     [primitive_text (prop_of h p ''columnIndex'')]"
| "param_texts IncorrectGlobalReferenceTarget h p =
     [primitive_text (prop_of h p ''expected''), primitive_text (prop_of h p ''received'')]"
| "param_texts UnknownDataType h p =
     map primitive_text (elements (prop_of h (prop_of h p ''dataType'') ''dataTypeNames'')) @
     map (\<lambda>a. primitive_text (prop_of h a ''value''))
       (elements (prop_of h (prop_of h p ''dataType'') ''arguments''))"

text \<open>
  The diagnostic-info object the spec describes for an entry: the node reference, the
  declared property if there is one, and the stamped code.
\<close>

definition spec_info :: "entry \<Rightarrow> nat \<Rightarrow> string \<Rightarrow> object" where
  "spec_info e node code =
     (''node'', VRef node) #
     (case spec_property e of None \<Rightarrow> [] | Some p \<Rightarrow> [(''property'', VStr p)]) @
     [(''code'', VStr code)]"

text \<open>The code pattern of the spec: \<^verbatim>\<open>SQL\<close> and five digits, counting from 1.\<close>

definition spec_code :: "nat \<Rightarrow> string" where
  "spec_code i = ''SQL'' @ replicate (5 - length (digits i)) CHR ''0'' @ digits i"

text \<open>
  Two parameter records are equal when they are equal by content: the record with every
  reference in it replaced by the content of the object it denotes. The deepest declared
  shape (record, data type, argument array, number literal, value) has five levels.
\<close>

fun content :: "nat \<Rightarrow> object list \<Rightarrow> val \<Rightarrow> val" where
  "content 0 h v = v"
| "content (Suc n) h (VArr xs) = VArr (map (content n h) xs)"
| "content (Suc n) h (VObj fs) = VObj (map (\<lambda>(k, x). (k, content n h x)) fs)"
| "content (Suc n) h (VRef a) =
     (if a < length h then VObj (map (\<lambda>(k, x). (k, content n h x)) (h ! a)) else VRef a)"
| "content (Suc n) h v = v"

definition record_content :: "object list \<Rightarrow> val \<Rightarrow> val" where
  "record_content h v = content 5 h v"

text \<open>
  The message renderer bound in each entry of the catalogue (the third argument of its
  \<^verbatim>\<open>create\<close> call), by entry.
\<close>

fun message_of :: "'w host \<Rightarrow> entry \<Rightarrow> val \<Rightarrow> (string, 'w) prog" where
  "message_of host DuplicatedVariableName = message_DuplicatedVariableName host"
| "message_of host NumericValueIsNotInteger = message_NumericValueIsNotInteger host"
| "message_of host BinaryOperatorNotDefinedForGivenExpressions =
     message_BinaryOperatorNotDefinedForGivenExpressions host"
| "message_of host UnaryOperatorNotDefinedForGivenExpression =
     message_UnaryOperatorNotDefinedForGivenExpression host"
| "message_of host ExpressionMustReturnABoolean = message_ExpressionMustReturnABoolean host"
| "message_of host AllStarSelectionRequiresTableSources =
     message_AllStarSelectionRequiresTableSources host"
| "message_of host TableDefinitionRequiresAtLeastOneColumn =
     message_TableDefinitionRequiresAtLeastOneColumn host"
| "message_of host SubQueriesWithinSelectStatementsMustHaveExactlyOneColumn =
     message_SubQueriesWithinSelectStatementsMustHaveExactlyOneColumn host"
| "message_of host CannotDeriveTypeOfExpression = message_CannotDeriveTypeOfExpression host"
| "message_of host TableOperationUsesTablesWithDifferentColumnCounts =
     message_TableOperationUsesTablesWithDifferentColumnCounts host"
| "message_of host TableOperationUsesTablesWithDifferentColumnTypes =
     message_TableOperationUsesTablesWithDifferentColumnTypes host"
| "message_of host IncorrectGlobalReferenceTarget = message_IncorrectGlobalReferenceTarget host"
| "message_of host UnknownDataType = message_UnknownDataType host"

section \<open>Sinks and hosts used to observe a reporter\<close>

text \<open>A sink that records every call it receives, in order, and never fails.\<close>

definition collect :: "(severity \<times> string \<times> nat) list sink" where
  "collect severity message info st =
     Inr (st\<lparr>world := world st @ [(severity, message, info)]\<rparr>)"

text \<open>A sink that folds every message it receives into the collaborators' state.\<close>

definition noting :: "(string \<Rightarrow> 'w \<Rightarrow> 'w) \<Rightarrow> 'w sink" where
  "noting keep severity message info st = Inr (st\<lparr>world := keep message (world st)\<rparr>)"


text \<open>
  A host whose objects convert through user code: the conversion leaves a trace in the
  state of the collaborators and answers with that state's text.
\<close>

definition tracing :: "string host" where
  "tracing v st = Inr (VStr (world st), st\<lparr>world := world st @ ''!''\<rparr>)"

section \<open>Auxiliary facts\<close>

subsection \<open>Reading well-typed values\<close>

lemmas reporter_defs =
  create_def stamped_def node_property_def whole_node_def new_object_def set_prop_def
  and_then_def returning_def

lemma has_prop_get:
  assumes "has_prop (heap st) k P v"
  shows "get_prop v k st = Inr (prop_of (heap st) v k, st)" and "P (prop_of (heap st) v k)"
  using assms
  by (cases v; simp add: has_prop_def prop_of_def split: option.splits if_splits)+

lemma has_prop_fields: "has_prop h k P v \<Longrightarrow> \<exists>fs. fields_of h v = Some fs"
  by (simp add: has_prop_def split: option.splits)

lemma ToString_string: "is_string x \<Longrightarrow> ToString host x st = Inr (primitive_text x, st)"
  by (cases x) (simp_all add: is_string_def)

lemma ToString_number: "is_number x \<Longrightarrow> ToString host x st = Inr (primitive_text x, st)"
  by (cases x) (simp_all add: is_number_def)

lemma element_texts_strings:
  "list_all is_string xs \<Longrightarrow> element_texts host xs st = Inr (map primitive_text xs, st)"
proof (induction xs)
  case Nil
  then show ?case by simp
next
  case (Cons x xs)
  then have "is_string x" by simp
  then obtain s where "x = VStr s"
    by (cases x) (simp_all add: is_string_def)
  with Cons show ?case by simp
qed

lemma element_texts_numbers:
  "list_all is_number xs \<Longrightarrow> element_texts host xs st = Inr (map primitive_text xs, st)"
proof (induction xs)
  case Nil
  then show ?case by simp
next
  case (Cons x xs)
  then have "is_number x" by simp
  then obtain n where "x = VNum n"
    by (cases x) (simp_all add: is_number_def)
  with Cons show ?case by simp
qed

lemma join_strings:
  "list_all is_string xs \<Longrightarrow>
   join host sep xs st = Inr (intercalate sep (map primitive_text xs), st)"
  by (simp add: join_def element_texts_strings)

lemma map_values_NumberLiteral:
  "list_all (NumberLiteral (heap st)) xs \<Longrightarrow>
   map_values (\<lambda>dt. get_prop dt ''value'') xs st =
     Inr (map (\<lambda>a. prop_of (heap st) a ''value'') xs, st)"
proof (induction xs)
  case Nil
  then show ?case by simp
next
  case (Cons x xs)
  then have "has_prop (heap st) ''value'' is_number x"
    by (simp add: NumberLiteral_def)
  then have "get_prop x ''value'' st = Inr (prop_of (heap st) x ''value'', st)"
    by (rule has_prop_get(1))
  with Cons show ?case by simp
qed

lemma join_values:
  assumes "list_all (NumberLiteral (heap st)) xs"
  shows "join host sep (map (\<lambda>a. prop_of (heap st) a ''value'') xs) st =
     Inr (intercalate sep (map (\<lambda>a. primitive_text (prop_of (heap st) a ''value'')) xs), st)"
proof -
  from assms have "list_all is_number (map (\<lambda>a. prop_of (heap st) a ''value'') xs)"
    by (auto simp: list_all_iff NumberLiteral_def dest: has_prop_get(2))
  then show ?thesis
    by (simp add: join_def element_texts_numbers comp_def)
qed

lemma is_array_of_elements:
  "is_array_of P v \<Longrightarrow> v = VArr (elements v) \<and> list_all P (elements v)"
  by (cases v) (simp_all add: is_array_of_def elements_def)

lemma sublist_quoted: "sublist t (a @ quoted t @ b)"
proof -
  have "a @ quoted t @ b = (a @ [CHR 0x27]) @ t @ ([CHR 0x27] @ b)"
    by (simp add: quoted_def)
  then show ?thesis
    by (simp only: sublist_appendI)
qed

lemma sublist_right: "sublist x b \<Longrightarrow> sublist x (a @ b)"
  by (metis append_assoc sublist_def)

lemma sublist_left: "sublist x a \<Longrightarrow> sublist x (a @ b)"
  by (metis append_assoc sublist_def)

lemma sublist_intercalate: "x \<in> set xs \<Longrightarrow> sublist x (intercalate sep xs)"
proof (induction sep xs rule: intercalate.induct)
  case (1 sep)
  then show ?case by simp
next
  case (2 sep y)
  then show ?case by simp
next
  case (3 sep y z zs)
  show ?case
  proof (cases "x = y")
    case True
    have "sublist y ([] @ y @ (sep @ intercalate sep (z # zs)))"
      by (rule sublist_appendI)
    with True show ?thesis by simp
  next
    case False
    with 3 have "sublist x (intercalate sep (z # zs))" by simp
    then have "sublist x ((y @ sep) @ intercalate sep (z # zs))"
      by (rule sublist_right)
    then show ?thesis by simp
  qed
qed

lemma ReportAs_call:
  "call (ReportAs host e :: (val, 'w) reporter) node props accept st =
     (case message_of host e props st of
        Inl x \<Rightarrow> Inl x
      | Inr (m, st1) \<Rightarrow>
          accept Error m (length (heap st1))
            (st1\<lparr>heap := heap st1 @
                 [spec_info e node (Code (ReportAs host e :: (val, 'w) reporter))]\<rparr>))"
  by (cases e)
    (simp_all add: create_def stamped_def node_property_def whole_node_def
      new_object_def set_prop_def spec_info_def split: sum.splits)

lemma typed_DuplicatedVariableName:
  assumes "Nameable (heap st) p"
  shows "message_DuplicatedVariableName host p st =
    Inr (''Duplicated variable name '' @
         quoted (primitive_text (prop_of (heap st) p ''name'')) @ ''.'', st)"
proof -
  from assms have h: "has_prop (heap st) ''name'' is_string p"
    by (simp add: Nameable_def)
  show ?thesis
    by (simp add: message_DuplicatedVariableName_def and_then_def returning_def
        has_prop_get(1) [OF h] ToString_string [OF has_prop_get(2) [OF h]])
qed

lemma typed_NumericValueIsNotInteger:
  assumes "NumericValue (heap st) p"
  shows "message_NumericValueIsNotInteger host p st =
    Inr (''Value '' @ quoted (primitive_text (prop_of (heap st) p ''value'')) @
         '' is not an integer.'', st)"
proof -
  from assms have h: "has_prop (heap st) ''value'' is_number p"
    by (simp add: NumericValue_def)
  show ?thesis
    by (simp add: message_NumericValueIsNotInteger_def and_then_def returning_def
        has_prop_get(1) [OF h] ToString_number [OF has_prop_get(2) [OF h]])
qed

lemma TypeDescriptor_label:
  assumes "has_prop (heap st) k (TypeDescriptor (heap st)) p"
  shows "get_prop p k st = Inr (prop_of (heap st) p k, st)"
    and "get_prop (prop_of (heap st) p k) ''discriminator'' st =
      Inr (prop_of (heap st) (prop_of (heap st) p k) ''discriminator'', st)"
    and "ToString host (prop_of (heap st) (prop_of (heap st) p k) ''discriminator'') st =
      Inr (label (heap st) (prop_of (heap st) p k), st)"
proof -
  show "get_prop p k st = Inr (prop_of (heap st) p k, st)"
    using assms by (rule has_prop_get(1))
  from assms have "TypeDescriptor (heap st) (prop_of (heap st) p k)"
    by (rule has_prop_get(2))
  then have d: "has_prop (heap st) ''discriminator'' is_string (prop_of (heap st) p k)"
    by (simp add: TypeDescriptor_def)
  then show "get_prop (prop_of (heap st) p k) ''discriminator'' st =
      Inr (prop_of (heap st) (prop_of (heap st) p k) ''discriminator'', st)"
    by (rule has_prop_get(1))
  show "ToString host (prop_of (heap st) (prop_of (heap st) p k) ''discriminator'') st =
      Inr (label (heap st) (prop_of (heap st) p k), st)"
    unfolding label_def by (rule ToString_string [OF has_prop_get(2) [OF d]])
qed

lemma typed_BinaryOperatorNotDefinedForGivenExpressions:
  assumes "BinaryOperatorMismatch (heap st) p"
  shows "message_BinaryOperatorNotDefinedForGivenExpressions host p st =
    Inr (''Binary operator '' @ quoted (primitive_text (prop_of (heap st) p ''op'')) @
         '' is not defined for ('' @ quoted (label (heap st) (prop_of (heap st) p ''left'')) @
         '', '' @ quoted (label (heap st) (prop_of (heap st) p ''right'')) @ '').'', st)"
proof -
  from assms have op: "has_prop (heap st) ''op'' is_string p"
    and l: "has_prop (heap st) ''left'' (TypeDescriptor (heap st)) p"
    and r: "has_prop (heap st) ''right'' (TypeDescriptor (heap st)) p"
    by (simp_all add: BinaryOperatorMismatch_def)
  show ?thesis
    by (simp add: message_BinaryOperatorNotDefinedForGivenExpressions_def and_then_def
        returning_def has_prop_get(1) [OF op] ToString_string [OF has_prop_get(2) [OF op]]
        TypeDescriptor_label [OF l] TypeDescriptor_label [OF r])
qed

lemma typed_UnaryOperatorNotDefinedForGivenExpression:
  assumes "UnaryOperatorMismatch (heap st) p"
  shows "message_UnaryOperatorNotDefinedForGivenExpression host p st =
    Inr (''Unary operator '' @ quoted (primitive_text (prop_of (heap st) p ''op'')) @
         '' is not defined for '' @
         quoted (label (heap st) (prop_of (heap st) p ''operand'')) @ ''.'', st)"
proof -
  from assms have op: "has_prop (heap st) ''op'' is_string p"
    and d: "has_prop (heap st) ''operand'' (TypeDescriptor (heap st)) p"
    by (simp_all add: UnaryOperatorMismatch_def)
  show ?thesis
    by (simp add: message_UnaryOperatorNotDefinedForGivenExpression_def and_then_def
        returning_def has_prop_get(1) [OF op] ToString_string [OF has_prop_get(2) [OF op]]
        TypeDescriptor_label [OF d])
qed

lemma typed_ExpressionMustReturnABoolean:
  assumes "TypeDescriptor (heap st) p"
  shows "message_ExpressionMustReturnABoolean host p st =
    Inr (''Expression must return a boolean, not a '' @ quoted (label (heap st) p) @ ''.'', st)"
proof -
  from assms have h: "has_prop (heap st) ''discriminator'' is_string p"
    by (simp add: TypeDescriptor_def)
  show ?thesis
    by (simp add: message_ExpressionMustReturnABoolean_def and_then_def returning_def
        label_def has_prop_get(1) [OF h] ToString_string [OF has_prop_get(2) [OF h]])
qed

lemma typed_TableOperationUsesTablesWithDifferentColumnTypes:
  assumes h: "has_prop (heap st) ''columnIndex'' is_number p"
  shows "message_TableOperationUsesTablesWithDifferentColumnTypes host p st =
    Inr (''This operation uses tables with different columns types! '' @
         ''Compare the columns at index '' @
         primitive_text (prop_of (heap st) p ''columnIndex'') @
         ''. They are not convertable to each other.'', st)"
  by (simp add: message_TableOperationUsesTablesWithDifferentColumnTypes_def and_then_def
      returning_def has_prop_get(1) [OF h] ToString_number [OF has_prop_get(2) [OF h]])

lemma typed_IncorrectGlobalReferenceTarget:
  assumes e: "has_prop (heap st) ''expected'' is_string p"
    and r: "has_prop (heap st) ''received'' is_string p"
  shows "message_IncorrectGlobalReferenceTarget host p st =
    Inr (''Expected definition of type '' @
         quoted (primitive_text (prop_of (heap st) p ''expected'')) @
         '' but received '' @
         quoted (primitive_text (prop_of (heap st) p ''received'')) @ ''.'', st)"
  by (simp add: message_IncorrectGlobalReferenceTarget_def and_then_def returning_def
      has_prop_get(1) [OF e] ToString_string [OF has_prop_get(2) [OF e]]
      has_prop_get(1) [OF r] ToString_string [OF has_prop_get(2) [OF r]])

lemma typed_UnknownDataType:
  assumes "has_prop (heap st) ''dataType'' (DataType (heap st)) p"
  shows "message_UnknownDataType host p st =
    Inr (''Unknown data type '' @
         quoted (intercalate '' ''
                   (map primitive_text
                      (elements (prop_of (heap st) (prop_of (heap st) p ''dataType'')
                         ''dataTypeNames''))) @
                 ''('' @
                 intercalate '', ''
                   (map (\<lambda>a. primitive_text (prop_of (heap st) a ''value''))
                      (elements (prop_of (heap st) (prop_of (heap st) p ''dataType'')
                         ''arguments''))) @
                 '')'') @
         ''.'', st)"
proof -
  define d where "d = prop_of (heap st) p ''dataType''"
  define ns where "ns = prop_of (heap st) d ''dataTypeNames''"
  define as where "as = prop_of (heap st) d ''arguments''"
  have p: "get_prop p ''dataType'' st = Inr (d, st)"
    unfolding d_def using assms by (rule has_prop_get(1))
  have "DataType (heap st) d"
    unfolding d_def using assms by (rule has_prop_get(2))
  then have hn: "has_prop (heap st) ''dataTypeNames'' (is_array_of is_string) d"
    and ha: "has_prop (heap st) ''arguments'' (is_array_of (NumberLiteral (heap st))) d"
    by (simp_all add: DataType_def)
  have n: "get_prop d ''dataTypeNames'' st = Inr (ns, st)"
    unfolding ns_def using hn by (rule has_prop_get(1))
  have a: "get_prop d ''arguments'' st = Inr (as, st)"
    unfolding as_def using ha by (rule has_prop_get(1))
  have "is_array_of is_string ns"
    unfolding ns_def using hn by (rule has_prop_get(2))
  then have ns: "ns = VArr (elements ns)" "list_all is_string (elements ns)"
    using is_array_of_elements by blast+
  have "is_array_of (NumberLiteral (heap st)) as"
    unfolding as_def using ha by (rule has_prop_get(2))
  then have as: "as = VArr (elements as)" "list_all (NumberLiteral (heap st)) (elements as)"
    using is_array_of_elements by blast+
  have j1: "call_join host ns '' '' st =
      Inr (intercalate '' '' (map primitive_text (elements ns)), st)"
    using ns(1) join_strings [OF ns(2)] by (metis call_join.simps(1))
  have "call_map (VArr (elements as)) (\<lambda>dt. get_prop dt ''value'') st =
      Inr (VArr (map (\<lambda>a. prop_of (heap st) a ''value'') (elements as)), st)"
    by (simp add: map_values_NumberLiteral [OF as(2)])
  with as(1) have m: "call_map as (\<lambda>dt. get_prop dt ''value'') st =
      Inr (VArr (map (\<lambda>a. prop_of (heap st) a ''value'') (elements as)), st)"
    by simp
  note j2 = join_values [OF as(2), of host "'', ''"]
  show ?thesis
    unfolding message_UnknownDataType_def d_def [symmetric] ns_def [symmetric]
      as_def [symmetric]
    by (simp add: and_then_def returning_def p n a j1 m j2
        d_def [symmetric] ns_def [symmetric] as_def [symmetric])
qed

subsection \<open>Parameter texts inside the message\<close>

lemma sublist_second: "sublist t (a @ quoted s @ b @ quoted t @ c)"
  using sublist_quoted [of t "a @ quoted s @ b" c] by simp

lemma sublist_third: "sublist t (a @ quoted s @ b @ quoted u @ c @ quoted t @ d)"
  using sublist_quoted [of t "a @ quoted s @ b @ quoted u @ c" d] by simp

lemma sublist_after_two: "sublist t (a @ b @ t @ c)"
  using sublist_appendI [of t "a @ b" c] by simp

lemma sublist_data_type:
  assumes "t \<in> set xs \<union> set ys"
  shows "sublist t (a @ quoted (intercalate s xs @ b @ intercalate s' ys @ c) @ d)"
proof -
  have "sublist t (intercalate s xs @ b @ intercalate s' ys @ c)"
  proof (cases "t \<in> set xs")
    case True
    then have "sublist t (intercalate s xs)" by (rule sublist_intercalate)
    then show ?thesis by (rule sublist_left)
  next
    case False
    with assms have "t \<in> set ys" by simp
    then have "sublist t (intercalate s' ys)" by (rule sublist_intercalate)
    then have "sublist t (intercalate s' ys @ c)" by (rule sublist_left)
    then have "sublist t (b @ intercalate s' ys @ c)" by (rule sublist_right)
    then show ?thesis by (rule sublist_right)
  qed
  then have "sublist t ((intercalate s xs @ b @ intercalate s' ys @ c) @ [CHR 0x27])"
    by (rule sublist_left)
  then have "sublist t ([CHR 0x27] @ (intercalate s xs @ b @ intercalate s' ys @ c) @ [CHR 0x27])"
    by (rule sublist_right)
  then have "sublist t (quoted (intercalate s xs @ b @ intercalate s' ys @ c))"
    by (simp only: quoted_def)
  then have "sublist t (quoted (intercalate s xs @ b @ intercalate s' ys @ c) @ d)"
    by (rule sublist_left)
  then show ?thesis by (rule sublist_right)
qed

lemma texts1: "P a \<Longrightarrow> \<forall>t\<in>set [a]. P t"
  by simp

lemma texts2: "P a \<Longrightarrow> P b \<Longrightarrow> \<forall>t\<in>set [a, b]. P t"
  by simp

lemma texts3: "P a \<Longrightarrow> P b \<Longrightarrow> P c \<Longrightarrow> \<forall>t\<in>set [a, b, c]. P t"
  by simp

lemma message_found:
  assumes "f = Inr (m, st)" and "m \<noteq> []" and "\<forall>t\<in>set ts. sublist t m"
  shows "\<exists>m. f = Inr (m, st) \<and> m \<noteq> [] \<and> (\<forall>t\<in>set ts. sublist t m)"
  using assms by blast

lemma typed_message:
  assumes "params_type e (heap st) p"
  shows "\<exists>m. message_of host e p st = Inr (m, st) \<and> m \<noteq> [] \<and>
    (\<forall>t\<in>set (param_texts e (heap st) p). sublist t m)"
proof (cases e)
  case DuplicatedVariableName
  with assms have "Nameable (heap st) p" by simp
  then show ?thesis
    unfolding DuplicatedVariableName message_of.simps param_texts.simps
    by (intro message_found [OF typed_DuplicatedVariableName] texts1 sublist_quoted) simp_all
next
  case NumericValueIsNotInteger
  with assms have "NumericValue (heap st) p" by simp
  then show ?thesis
    unfolding NumericValueIsNotInteger message_of.simps param_texts.simps
    by (intro message_found [OF typed_NumericValueIsNotInteger] texts1 sublist_quoted) simp_all
next
  case BinaryOperatorNotDefinedForGivenExpressions
  with assms have "BinaryOperatorMismatch (heap st) p" by simp
  then show ?thesis
    unfolding BinaryOperatorNotDefinedForGivenExpressions message_of.simps param_texts.simps
    by (intro message_found [OF typed_BinaryOperatorNotDefinedForGivenExpressions] texts3
        sublist_quoted sublist_second sublist_third) simp_all
next
  case UnaryOperatorNotDefinedForGivenExpression
  with assms have "UnaryOperatorMismatch (heap st) p" by simp
  then show ?thesis
    unfolding UnaryOperatorNotDefinedForGivenExpression message_of.simps param_texts.simps
    by (intro message_found [OF typed_UnaryOperatorNotDefinedForGivenExpression] texts2
        sublist_quoted sublist_second) simp_all
next
  case ExpressionMustReturnABoolean
  with assms have "TypeDescriptor (heap st) p" by simp
  then show ?thesis
    unfolding ExpressionMustReturnABoolean message_of.simps param_texts.simps
    by (intro message_found [OF typed_ExpressionMustReturnABoolean] texts1 sublist_quoted)
      simp_all
next
  case AllStarSelectionRequiresTableSources
  then show ?thesis
    by (simp add: message_AllStarSelectionRequiresTableSources_def returning_def)
next
  case TableDefinitionRequiresAtLeastOneColumn
  then show ?thesis
    by (simp add: message_TableDefinitionRequiresAtLeastOneColumn_def returning_def)
next
  case SubQueriesWithinSelectStatementsMustHaveExactlyOneColumn
  then show ?thesis
    by (simp add: message_SubQueriesWithinSelectStatementsMustHaveExactlyOneColumn_def
        returning_def)
next
  case CannotDeriveTypeOfExpression
  then show ?thesis
    by (simp add: message_CannotDeriveTypeOfExpression_def returning_def)
next
  case TableOperationUsesTablesWithDifferentColumnCounts
  then show ?thesis
    by (simp add: message_TableOperationUsesTablesWithDifferentColumnCounts_def returning_def)
next
  case TableOperationUsesTablesWithDifferentColumnTypes
  with assms have "has_prop (heap st) ''columnIndex'' is_number p" by simp
  then show ?thesis
    unfolding TableOperationUsesTablesWithDifferentColumnTypes message_of.simps
      param_texts.simps
    by (intro message_found [OF typed_TableOperationUsesTablesWithDifferentColumnTypes] texts1
        sublist_after_two) simp_all
next
  case IncorrectGlobalReferenceTarget
  with assms have "has_prop (heap st) ''expected'' is_string p"
    and "has_prop (heap st) ''received'' is_string p"
    by simp_all
  then show ?thesis
    unfolding IncorrectGlobalReferenceTarget message_of.simps param_texts.simps
    by (intro message_found [OF typed_IncorrectGlobalReferenceTarget] texts2
        sublist_quoted sublist_second) simp_all
next
  case UnknownDataType
  with assms have t: "has_prop (heap st) ''dataType'' (DataType (heap st)) p" by simp
  define names where "names = map primitive_text
    (elements (prop_of (heap st) (prop_of (heap st) p ''dataType'') ''dataTypeNames''))"
  define args where "args = map (\<lambda>a. primitive_text (prop_of (heap st) a ''value''))
    (elements (prop_of (heap st) (prop_of (heap st) p ''dataType'') ''arguments''))"
  have texts: "param_texts UnknownDataType (heap st) p = names @ args"
    by (simp add: names_def args_def)
  have m: "message_UnknownDataType host p st =
      Inr (''Unknown data type '' @
           quoted (intercalate '' '' names @ ''('' @ intercalate '', '' args @ '')'') @
           ''.'', st)"
    unfolding names_def args_def by (rule typed_UnknownDataType [OF t])
  have "\<forall>t\<in>set (names @ args).
      sublist t
        (''Unknown data type '' @
         quoted (intercalate '' '' names @ ''('' @ intercalate '', '' args @ '')'') @
         ''.'')"
  proof
    fix t
    assume "t \<in> set (names @ args)"
    then have "t \<in> set names \<union> set args"
      by simp
    then show "sublist t
        (''Unknown data type '' @
         quoted (intercalate '' '' names @ ''('' @ intercalate '', '' args @ '')'') @
         ''.'')"
      by (rule sublist_data_type)
  qed
  then show ?thesis
    unfolding UnknownDataType message_of.simps texts
    by (intro message_found [OF m]) simp_all
qed

subsection \<open>Records by content\<close>

lemma content_primitive [simp]:
  "content n h VUndefined = VUndefined" "content n h VNull = VNull"
  "content n h (VBool b) = VBool b" "content n h (VNum x) = VNum x"
  "content n h (VStr s) = VStr s"
  by (cases n; simp)+

lemma content_string: "is_string x \<Longrightarrow> content n h x = x"
  by (cases x) (simp_all add: is_string_def)

lemma content_number: "is_number x \<Longrightarrow> content n h x = x"
  by (cases x) (simp_all add: is_number_def)

lemma fields_of_content:
  "fields_of h v = Some fs \<Longrightarrow>
   content (Suc n) h v = VObj (map (\<lambda>(k, x). (k, content n h x)) fs)"
  by (cases v) (simp_all split: if_splits)

lemma map_of_content:
  "map_of (map (\<lambda>(k, x). (k, content n h x)) fs) k = map_option (content n h) (map_of fs k)"
  by (induction fs) auto

lemma prop_of_content:
  "fields_of h v = Some fs \<Longrightarrow>
   prop_of h0 (content (Suc n) h v) k = content n h (prop_of h v k)"
  by (simp add: fields_of_content prop_of_def map_of_content split: option.splits)

lemma has_prop_content:
  assumes "has_prop h k P v" and "\<And>x. P x \<Longrightarrow> Q (content n h x)"
  shows "has_prop h0 k Q (content (Suc n) h v)"
proof -
  from assms(1) obtain fs x where fs: "fields_of h v = Some fs" "map_of fs k = Some x" "P x"
    by (auto simp: has_prop_def split: option.splits)
  then show ?thesis
    by (simp add: fields_of_content has_prop_def map_of_content assms(2))
qed

lemma has_prop_prop_of:
  assumes "has_prop h k P v"
  shows "prop_of h0 (content (Suc n) h v) k = content n h (prop_of h v k)"
proof -
  from assms obtain fs where "fields_of h v = Some fs"
    using has_prop_fields by blast
  then show ?thesis by (rule prop_of_content)
qed

lemma is_array_of_content:
  assumes "is_array_of P v" and "\<And>x. P x \<Longrightarrow> Q (content n h x)"
  shows "is_array_of Q (content (Suc n) h v)"
  using assms by (cases v) (simp_all add: is_array_of_def list_all_iff)

lemma elements_content:
  "is_array_of P v \<Longrightarrow> elements (content (Suc n) h v) = map (content n h) (elements v)"
  by (cases v) (simp_all add: is_array_of_def elements_def)

lemma TypeDescriptor_content:
  "TypeDescriptor h v \<Longrightarrow> TypeDescriptor h0 (content (Suc n) h v)"
  unfolding TypeDescriptor_def by (erule has_prop_content) (simp add: content_string)

lemma label_content:
  assumes "TypeDescriptor h v"
  shows "label h0 (content (Suc n) h v) = label h v"
proof -
  from assms have d: "has_prop h ''discriminator'' is_string v"
    by (simp add: TypeDescriptor_def)
  then have "is_string (prop_of h v ''discriminator'')"
    using has_prop_get(2) [of "\<lparr>heap = h, world = ()\<rparr>"] by simp
  then show ?thesis
    by (simp add: label_def has_prop_prop_of [OF d] content_string)
qed

lemma NumberLiteral_content:
  "NumberLiteral h v \<Longrightarrow> NumberLiteral h0 (content (Suc n) h v)"
  unfolding NumberLiteral_def by (erule has_prop_content) (simp add: content_number)

lemma value_content:
  assumes "NumberLiteral h v"
  shows "prop_of h0 (content (Suc n) h v) ''value'' = prop_of h v ''value''"
proof -
  from assms have d: "has_prop h ''value'' is_number v"
    by (simp add: NumberLiteral_def)
  then have "is_number (prop_of h v ''value'')"
    using has_prop_get(2) [of "\<lparr>heap = h, world = ()\<rparr>"] by simp
  then show ?thesis
    by (simp add: has_prop_prop_of [OF d] content_number)
qed

lemma DataType_content:
  assumes "DataType h v"
  shows "DataType h0 (content (Suc (Suc (Suc n))) h v)"
proof -
  from assms have ns: "has_prop h ''dataTypeNames'' (is_array_of is_string) v"
    and as: "has_prop h ''arguments'' (is_array_of (NumberLiteral h)) v"
    by (simp_all add: DataType_def)
  have "has_prop h0 ''dataTypeNames'' (is_array_of is_string) (content (Suc (Suc (Suc n))) h v)"
    using ns
  proof (rule has_prop_content)
    fix x
    assume "is_array_of is_string x"
    then show "is_array_of is_string (content (Suc (Suc n)) h x)"
      by (rule is_array_of_content) (simp add: content_string)
  qed
  moreover have "has_prop h0 ''arguments'' (is_array_of (NumberLiteral h0))
      (content (Suc (Suc (Suc n))) h v)"
    using as
  proof (rule has_prop_content)
    fix x
    assume "is_array_of (NumberLiteral h) x"
    then show "is_array_of (NumberLiteral h0) (content (Suc (Suc n)) h x)"
      by (rule is_array_of_content) (rule NumberLiteral_content)
  qed
  ultimately show ?thesis
    by (simp add: DataType_def)
qed

lemma params_type_content:
  assumes "params_type e h p"
  shows "params_type e h0 (record_content h p)"
proof -
  have five: "(5::nat) = Suc (Suc (Suc (Suc (Suc 0))))"
    by simp
  show ?thesis
  proof (cases e)
    case DuplicatedVariableName
    with assms show ?thesis
      unfolding record_content_def five
      by (auto simp: Nameable_def content_string intro: has_prop_content)
  next
    case NumericValueIsNotInteger
    with assms show ?thesis
      unfolding record_content_def five
      by (auto simp: NumericValue_def content_number intro: has_prop_content)
  next
    case BinaryOperatorNotDefinedForGivenExpressions
    with assms show ?thesis
      unfolding record_content_def five
      by (auto simp: BinaryOperatorMismatch_def content_string
          intro: has_prop_content TypeDescriptor_content)
  next
    case UnaryOperatorNotDefinedForGivenExpression
    with assms show ?thesis
      unfolding record_content_def five
      by (auto simp: UnaryOperatorMismatch_def content_string
          intro: has_prop_content TypeDescriptor_content)
  next
    case ExpressionMustReturnABoolean
    with assms show ?thesis
      unfolding record_content_def five
      by (auto intro: TypeDescriptor_content)
  next
    case AllStarSelectionRequiresTableSources
    with assms show ?thesis
      unfolding record_content_def five
      by (cases p) (simp_all add: EmptyRecord_def)
  next
    case TableDefinitionRequiresAtLeastOneColumn
    with assms show ?thesis
      unfolding record_content_def five
      by (cases p) (simp_all add: EmptyRecord_def)
  next
    case SubQueriesWithinSelectStatementsMustHaveExactlyOneColumn
    with assms show ?thesis
      unfolding record_content_def five
      by (cases p) (simp_all add: EmptyRecord_def)
  next
    case CannotDeriveTypeOfExpression
    with assms show ?thesis
      unfolding record_content_def five
      by (cases p) (simp_all add: EmptyRecord_def)
  next
    case TableOperationUsesTablesWithDifferentColumnCounts
    with assms show ?thesis
      unfolding record_content_def five
      by (cases p) (simp_all add: EmptyRecord_def)
  next
    case TableOperationUsesTablesWithDifferentColumnTypes
    with assms show ?thesis
      unfolding record_content_def five
      by (auto simp: content_number intro: has_prop_content)
  next
    case IncorrectGlobalReferenceTarget
    with assms show ?thesis
      unfolding record_content_def five
      by (auto simp: content_string intro: has_prop_content)
  next
    case UnknownDataType
    with assms show ?thesis
      unfolding record_content_def five
      by (auto intro: has_prop_content DataType_content)
  qed
qed

lemma has_prop_holds: "has_prop h k P v \<Longrightarrow> P (prop_of h v k)"
  using has_prop_get(2) [of "\<lparr>heap = h, world = ()\<rparr>" k P v] by simp

lemma string_prop_content:
  assumes "has_prop h k is_string v"
  shows "prop_of h0 (content (Suc n) h v) k = prop_of h v k"
  using has_prop_prop_of [OF assms] has_prop_holds [OF assms] by (simp add: content_string)

lemma number_prop_content:
  assumes "has_prop h k is_number v"
  shows "prop_of h0 (content (Suc n) h v) k = prop_of h v k"
  using has_prop_prop_of [OF assms] has_prop_holds [OF assms] by (simp add: content_number)

lemma label_prop_content:
  assumes "has_prop h k (TypeDescriptor h) v"
  shows "label h0 (prop_of h0 (content (Suc (Suc n)) h v) k) = label h (prop_of h v k)"
  using has_prop_prop_of [OF assms] has_prop_holds [OF assms] by (simp add: label_content)

lemma names_content:
  assumes "is_array_of is_string ns"
  shows "elements (content (Suc n) h ns) = elements ns"
proof -
  from assms have "list_all is_string (elements ns)"
    using is_array_of_elements by blast
  then have "map (content n h) (elements ns) = elements ns"
    by (simp add: list_all_iff content_string map_idI)
  with assms show ?thesis
    by (simp add: elements_content)
qed

lemma arguments_content:
  assumes "is_array_of (NumberLiteral h) as"
  shows "map (\<lambda>a. primitive_text (prop_of h0 a ''value''))
           (elements (content (Suc (Suc n)) h as)) =
         map (\<lambda>a. primitive_text (prop_of h a ''value'')) (elements as)"
proof -
  from assms have "list_all (NumberLiteral h) (elements as)"
    using is_array_of_elements by blast
  then have "map (\<lambda>a. primitive_text (prop_of h0 (content (Suc n) h a) ''value''))
      (elements as) = map (\<lambda>a. primitive_text (prop_of h a ''value'')) (elements as)"
    by (simp add: list_all_iff value_content)
  with assms show ?thesis
    by (simp add: elements_content comp_def)
qed

lemma content_message:
  assumes "params_type e (heap st) p"
  shows "message_of other_host e (record_content (heap st) p) other_state =
    (case message_of host e p st of Inl x \<Rightarrow> Inl x | Inr (m, s) \<Rightarrow> Inr (m, other_state))"
proof -
  have five: "(5::nat) = Suc (Suc (Suc (Suc (Suc 0))))"
    by simp
  note typed_other = params_type_content [OF assms, of "heap other_state"]
  show ?thesis
  proof (cases e)
    case DuplicatedVariableName
    with assms typed_other have t: "Nameable (heap st) p"
      and t_other: "Nameable (heap other_state) (record_content (heap st) p)"
      by simp_all
    from t have "prop_of (heap other_state) (record_content (heap st) p) ''name'' =
        prop_of (heap st) p ''name''"
      unfolding record_content_def five Nameable_def by (rule string_prop_content)
    then show ?thesis
      by (simp add: DuplicatedVariableName typed_DuplicatedVariableName [OF t]
          typed_DuplicatedVariableName [OF t_other])
  next
    case NumericValueIsNotInteger
    with assms typed_other have t: "NumericValue (heap st) p"
      and t_other: "NumericValue (heap other_state) (record_content (heap st) p)"
      by simp_all
    from t have "prop_of (heap other_state) (record_content (heap st) p) ''value'' =
        prop_of (heap st) p ''value''"
      unfolding record_content_def five NumericValue_def by (rule number_prop_content)
    then show ?thesis
      by (simp add: NumericValueIsNotInteger typed_NumericValueIsNotInteger [OF t]
          typed_NumericValueIsNotInteger [OF t_other])
  next
    case BinaryOperatorNotDefinedForGivenExpressions
    with assms typed_other have t: "BinaryOperatorMismatch (heap st) p"
      and t_other: "BinaryOperatorMismatch (heap other_state) (record_content (heap st) p)"
      by simp_all
    from t have op: "has_prop (heap st) ''op'' is_string p"
      and l: "has_prop (heap st) ''left'' (TypeDescriptor (heap st)) p"
      and r: "has_prop (heap st) ''right'' (TypeDescriptor (heap st)) p"
      by (simp_all add: BinaryOperatorMismatch_def)
    have "prop_of (heap other_state) (record_content (heap st) p) ''op'' = prop_of (heap st) p ''op''"
      unfolding record_content_def five using op by (rule string_prop_content)
    moreover have "label (heap other_state) (prop_of (heap other_state) (record_content (heap st) p) ''left'') =
        label (heap st) (prop_of (heap st) p ''left'')"
      unfolding record_content_def five using l by (rule label_prop_content)
    moreover have "label (heap other_state) (prop_of (heap other_state) (record_content (heap st) p) ''right'') =
        label (heap st) (prop_of (heap st) p ''right'')"
      unfolding record_content_def five using r by (rule label_prop_content)
    ultimately show ?thesis
      by (simp add: BinaryOperatorNotDefinedForGivenExpressions
          typed_BinaryOperatorNotDefinedForGivenExpressions [OF t]
          typed_BinaryOperatorNotDefinedForGivenExpressions [OF t_other])
  next
    case UnaryOperatorNotDefinedForGivenExpression
    with assms typed_other have t: "UnaryOperatorMismatch (heap st) p"
      and t_other: "UnaryOperatorMismatch (heap other_state) (record_content (heap st) p)"
      by simp_all
    from t have op: "has_prop (heap st) ''op'' is_string p"
      and d: "has_prop (heap st) ''operand'' (TypeDescriptor (heap st)) p"
      by (simp_all add: UnaryOperatorMismatch_def)
    have "prop_of (heap other_state) (record_content (heap st) p) ''op'' = prop_of (heap st) p ''op''"
      unfolding record_content_def five using op by (rule string_prop_content)
    moreover have
      "label (heap other_state) (prop_of (heap other_state) (record_content (heap st) p) ''operand'') =
        label (heap st) (prop_of (heap st) p ''operand'')"
      unfolding record_content_def five using d by (rule label_prop_content)
    ultimately show ?thesis
      by (simp add: UnaryOperatorNotDefinedForGivenExpression
          typed_UnaryOperatorNotDefinedForGivenExpression [OF t]
          typed_UnaryOperatorNotDefinedForGivenExpression [OF t_other])
  next
    case ExpressionMustReturnABoolean
    with assms typed_other have t: "TypeDescriptor (heap st) p"
      and t_other: "TypeDescriptor (heap other_state) (record_content (heap st) p)"
      by simp_all
    from t have "label (heap other_state) (record_content (heap st) p) = label (heap st) p"
      unfolding record_content_def five by (rule label_content)
    then show ?thesis
      by (simp add: ExpressionMustReturnABoolean typed_ExpressionMustReturnABoolean [OF t]
          typed_ExpressionMustReturnABoolean [OF t_other])
  next
    case AllStarSelectionRequiresTableSources
    then show ?thesis
      by (simp add: message_AllStarSelectionRequiresTableSources_def returning_def)
  next
    case TableDefinitionRequiresAtLeastOneColumn
    then show ?thesis
      by (simp add: message_TableDefinitionRequiresAtLeastOneColumn_def returning_def)
  next
    case SubQueriesWithinSelectStatementsMustHaveExactlyOneColumn
    then show ?thesis
      by (simp add: message_SubQueriesWithinSelectStatementsMustHaveExactlyOneColumn_def
          returning_def)
  next
    case CannotDeriveTypeOfExpression
    then show ?thesis
      by (simp add: message_CannotDeriveTypeOfExpression_def returning_def)
  next
    case TableOperationUsesTablesWithDifferentColumnCounts
    then show ?thesis
      by (simp add: message_TableOperationUsesTablesWithDifferentColumnCounts_def
          returning_def)
  next
    case TableOperationUsesTablesWithDifferentColumnTypes
    with assms typed_other have t: "has_prop (heap st) ''columnIndex'' is_number p"
      and t_other: "has_prop (heap other_state) ''columnIndex'' is_number (record_content (heap st) p)"
      by simp_all
    from t have "prop_of (heap other_state) (record_content (heap st) p) ''columnIndex'' =
        prop_of (heap st) p ''columnIndex''"
      unfolding record_content_def five by (rule number_prop_content)
    then show ?thesis
      by (simp add: TableOperationUsesTablesWithDifferentColumnTypes
          typed_TableOperationUsesTablesWithDifferentColumnTypes [OF t]
          typed_TableOperationUsesTablesWithDifferentColumnTypes [OF t_other])
  next
    case IncorrectGlobalReferenceTarget
    with assms typed_other have e: "has_prop (heap st) ''expected'' is_string p"
      and r: "has_prop (heap st) ''received'' is_string p"
      and e_other: "has_prop (heap other_state) ''expected'' is_string (record_content (heap st) p)"
      and r_other: "has_prop (heap other_state) ''received'' is_string (record_content (heap st) p)"
      by simp_all
    have "prop_of (heap other_state) (record_content (heap st) p) ''expected'' =
        prop_of (heap st) p ''expected''"
      unfolding record_content_def five using e by (rule string_prop_content)
    moreover have "prop_of (heap other_state) (record_content (heap st) p) ''received'' =
        prop_of (heap st) p ''received''"
      unfolding record_content_def five using r by (rule string_prop_content)
    ultimately show ?thesis
      by (simp add: IncorrectGlobalReferenceTarget
          typed_IncorrectGlobalReferenceTarget [OF e r]
          typed_IncorrectGlobalReferenceTarget [OF e_other r_other])
  next
    case UnknownDataType
    with assms typed_other have t: "has_prop (heap st) ''dataType'' (DataType (heap st)) p"
      and t_other: "has_prop (heap other_state) ''dataType'' (DataType (heap other_state))
        (record_content (heap st) p)"
      by simp_all
    define d where "d = prop_of (heap st) p ''dataType''"
    have d0: "prop_of (heap other_state) (record_content (heap st) p) ''dataType'' =
        content (Suc (Suc (Suc (Suc 0)))) (heap st) d"
      unfolding record_content_def five d_def using t by (rule has_prop_prop_of)
    have "DataType (heap st) d"
      unfolding d_def using t by (rule has_prop_holds)
    then have ns: "has_prop (heap st) ''dataTypeNames'' (is_array_of is_string) d"
      and as: "has_prop (heap st) ''arguments'' (is_array_of (NumberLiteral (heap st))) d"
      by (simp_all add: DataType_def)
    have n0: "prop_of (heap other_state) (content (Suc (Suc (Suc (Suc 0)))) (heap st) d)
        ''dataTypeNames'' =
        content (Suc (Suc (Suc 0))) (heap st) (prop_of (heap st) d ''dataTypeNames'')"
      using ns by (rule has_prop_prop_of)
    have a0: "prop_of (heap other_state) (content (Suc (Suc (Suc (Suc 0)))) (heap st) d)
        ''arguments'' =
        content (Suc (Suc (Suc 0))) (heap st) (prop_of (heap st) d ''arguments'')"
      using as by (rule has_prop_prop_of)
    have names: "elements (content (Suc (Suc (Suc 0))) (heap st)
        (prop_of (heap st) d ''dataTypeNames'')) =
        elements (prop_of (heap st) d ''dataTypeNames'')"
      using has_prop_holds [OF ns] by (rule names_content)
    have args: "map (\<lambda>a. primitive_text (prop_of (heap other_state) a ''value''))
        (elements (content (Suc (Suc (Suc 0))) (heap st) (prop_of (heap st) d ''arguments''))) =
        map (\<lambda>a. primitive_text (prop_of (heap st) a ''value''))
          (elements (prop_of (heap st) d ''arguments''))"
      using has_prop_holds [OF as] by (rule arguments_content)
    show ?thesis
      by (simp add: UnknownDataType typed_UnknownDataType [OF t] typed_UnknownDataType [OF t_other]
          d0 n0 a0 names args d_def [symmetric])
  qed
qed

lemma equal_records_equal_messages:
  assumes p: "params_type e (heap st) p" and p': "params_type e (heap st') p'"
    and same: "record_content (heap st) p = record_content (heap st') p'"
    and m: "message_of host e p st = Inr (m, st)"
  shows "message_of host' e p' st' = Inr (m, st')"
proof -
  obtain m' where m': "message_of host' e p' st' = Inr (m', st')"
    using typed_message [OF p'] by blast
  have "message_of host' e (record_content (heap st) p) st' = Inr (m, st')"
    using content_message [OF p, where other_host = host' and other_state = st' and host = host]
    by (simp add: m)
  moreover have "message_of host' e (record_content (heap st') p') st' = Inr (m', st')"
    using content_message [OF p', where other_host = host' and other_state = st'
        and host = host']
    by (simp add: m')
  ultimately have "m = m'"
    by (simp add: same)
  with m' show ?thesis by simp
qed

subsection \<open>A store that has grown\<close>

lemma fields_of_append:
  "fields_of h v = Some fs \<Longrightarrow> fields_of (h @ added) v = Some fs"
  by (cases v) (simp_all add: nth_append split: if_splits)

lemma has_prop_append:
  assumes "has_prop h k P v" and "\<And>x. P x \<Longrightarrow> Q x"
  shows "has_prop (h @ added) k Q v"
proof -
  from assms(1) obtain fs x where "fields_of h v = Some fs" "map_of fs k = Some x" "P x"
    by (auto simp: has_prop_def split: option.splits)
  then show ?thesis
    by (simp add: has_prop_def fields_of_append assms(2))
qed

lemma prop_of_append:
  assumes "has_prop h k P v"
  shows "prop_of (h @ added) v k = prop_of h v k"
proof -
  from assms obtain fs where "fields_of h v = Some fs"
    using has_prop_fields by blast
  then show ?thesis
    by (simp add: prop_of_def fields_of_append)
qed

lemma TypeDescriptor_append: "TypeDescriptor h v \<Longrightarrow> TypeDescriptor (h @ added) v"
  unfolding TypeDescriptor_def by (erule has_prop_append)

lemma label_append: "TypeDescriptor h v \<Longrightarrow> label (h @ added) v = label h v"
  by (simp add: TypeDescriptor_def label_def prop_of_append)

lemma label_prop_append:
  assumes "has_prop h k (TypeDescriptor h) v"
  shows "label (h @ added) (prop_of (h @ added) v k) = label h (prop_of h v k)"
  using has_prop_holds [OF assms] by (simp add: prop_of_append [OF assms] label_append)

lemma NumberLiteral_append: "NumberLiteral h v \<Longrightarrow> NumberLiteral (h @ added) v"
  unfolding NumberLiteral_def by (erule has_prop_append)

lemma is_array_of_mono:
  "is_array_of P v \<Longrightarrow> (\<And>x. P x \<Longrightarrow> Q x) \<Longrightarrow> is_array_of Q v"
  by (cases v) (simp_all add: is_array_of_def list_all_iff)

lemma DataType_append:
  assumes "DataType h v"
  shows "DataType (h @ added) v"
proof -
  from assms have ns: "has_prop h ''dataTypeNames'' (is_array_of is_string) v"
    and as: "has_prop h ''arguments'' (is_array_of (NumberLiteral h)) v"
    by (simp_all add: DataType_def)
  have "has_prop (h @ added) ''dataTypeNames'' (is_array_of is_string) v"
    using ns by (rule has_prop_append)
  moreover have "has_prop (h @ added) ''arguments'' (is_array_of (NumberLiteral (h @ added))) v"
    using as
  proof (rule has_prop_append)
    fix x
    assume "is_array_of (NumberLiteral h) x"
    then show "is_array_of (NumberLiteral (h @ added)) x"
      by (rule is_array_of_mono) (rule NumberLiteral_append)
  qed
  ultimately show ?thesis
    by (simp add: DataType_def)
qed

lemma arguments_append:
  assumes "is_array_of (NumberLiteral h) as"
  shows "map (\<lambda>a. primitive_text (prop_of (h @ added) a ''value'')) (elements as) =
         map (\<lambda>a. primitive_text (prop_of h a ''value'')) (elements as)"
proof -
  from assms have "list_all (NumberLiteral h) (elements as)"
    using is_array_of_elements by blast
  then have "prop_of (h @ added) a ''value'' = prop_of h a ''value''"
    if "a \<in> set (elements as)" for a
    using that prop_of_append [of h "''value''" is_number a added]
    by (simp add: list_all_iff NumberLiteral_def)
  then show ?thesis
    by simp
qed

lemma params_type_append:
  assumes "params_type e h p"
  shows "params_type e (h @ added) p"
proof (cases e)
  case DuplicatedVariableName
  with assms show ?thesis by (auto simp: Nameable_def intro: has_prop_append)
next
  case NumericValueIsNotInteger
  with assms show ?thesis by (auto simp: NumericValue_def intro: has_prop_append)
next
  case BinaryOperatorNotDefinedForGivenExpressions
  with assms show ?thesis
    by (auto simp: BinaryOperatorMismatch_def intro: has_prop_append TypeDescriptor_append)
next
  case UnaryOperatorNotDefinedForGivenExpression
  with assms show ?thesis
    by (auto simp: UnaryOperatorMismatch_def intro: has_prop_append TypeDescriptor_append)
next
  case ExpressionMustReturnABoolean
  with assms show ?thesis by (auto intro: TypeDescriptor_append)
next
  case AllStarSelectionRequiresTableSources
  with assms show ?thesis by (cases p) (simp_all add: EmptyRecord_def)
next
  case TableDefinitionRequiresAtLeastOneColumn
  with assms show ?thesis by (cases p) (simp_all add: EmptyRecord_def)
next
  case SubQueriesWithinSelectStatementsMustHaveExactlyOneColumn
  with assms show ?thesis by (cases p) (simp_all add: EmptyRecord_def)
next
  case CannotDeriveTypeOfExpression
  with assms show ?thesis by (cases p) (simp_all add: EmptyRecord_def)
next
  case TableOperationUsesTablesWithDifferentColumnCounts
  with assms show ?thesis by (cases p) (simp_all add: EmptyRecord_def)
next
  case TableOperationUsesTablesWithDifferentColumnTypes
  with assms show ?thesis by (auto intro: has_prop_append)
next
  case IncorrectGlobalReferenceTarget
  with assms show ?thesis by (auto intro: has_prop_append)
next
  case UnknownDataType
  with assms show ?thesis by (auto intro: has_prop_append DataType_append)
qed

lemma params_fields_append:
  assumes "params_type e h p"
  shows "fields_of (h @ added) p = fields_of h p"
proof (cases "fields_of h p")
  case (Some fs)
  then show ?thesis by (simp add: fields_of_append)
next
  case None
  have "\<not> has_prop h k P p" for k P
    using None by (simp add: has_prop_def)
  with assms have "EmptyRecord h p"
    by (cases e)
      (simp_all add: Nameable_def NumericValue_def BinaryOperatorMismatch_def
        UnaryOperatorMismatch_def TypeDescriptor_def)
  with None show ?thesis
    by (cases p) (simp_all add: EmptyRecord_def)
qed

lemma extended_store_message:
  assumes typed: "params_type e (heap st) p" and later: "heap st' = heap st @ added"
  shows "message_of host' e p st' =
    (case message_of host e p st of Inl x \<Rightarrow> Inl x | Inr (m, s) \<Rightarrow> Inr (m, st'))"
proof -
  from params_type_append [OF typed, of added] later
  have typed': "params_type e (heap st') p"
    by simp
  show ?thesis
  proof (cases e)
    case DuplicatedVariableName
    with typed typed' have t: "Nameable (heap st) p" and t': "Nameable (heap st') p"
      by simp_all
    from t have "prop_of (heap st') p ''name'' = prop_of (heap st) p ''name''"
      unfolding later Nameable_def by (rule prop_of_append)
    then show ?thesis
      by (simp add: DuplicatedVariableName typed_DuplicatedVariableName [OF t]
          typed_DuplicatedVariableName [OF t'])
  next
    case NumericValueIsNotInteger
    with typed typed' have t: "NumericValue (heap st) p" and t': "NumericValue (heap st') p"
      by simp_all
    from t have "prop_of (heap st') p ''value'' = prop_of (heap st) p ''value''"
      unfolding later NumericValue_def by (rule prop_of_append)
    then show ?thesis
      by (simp add: NumericValueIsNotInteger typed_NumericValueIsNotInteger [OF t]
          typed_NumericValueIsNotInteger [OF t'])
  next
    case BinaryOperatorNotDefinedForGivenExpressions
    with typed typed' have t: "BinaryOperatorMismatch (heap st) p"
      and t': "BinaryOperatorMismatch (heap st') p"
      by simp_all
    from t have op: "has_prop (heap st) ''op'' is_string p"
      and l: "has_prop (heap st) ''left'' (TypeDescriptor (heap st)) p"
      and r: "has_prop (heap st) ''right'' (TypeDescriptor (heap st)) p"
      by (simp_all add: BinaryOperatorMismatch_def)
    have "prop_of (heap st') p ''op'' = prop_of (heap st) p ''op''"
      unfolding later using op by (rule prop_of_append)
    moreover have "label (heap st') (prop_of (heap st') p ''left'') =
        label (heap st) (prop_of (heap st) p ''left'')"
      unfolding later using l by (rule label_prop_append)
    moreover have "label (heap st') (prop_of (heap st') p ''right'') =
        label (heap st) (prop_of (heap st) p ''right'')"
      unfolding later using r by (rule label_prop_append)
    ultimately show ?thesis
      by (simp add: BinaryOperatorNotDefinedForGivenExpressions
          typed_BinaryOperatorNotDefinedForGivenExpressions [OF t]
          typed_BinaryOperatorNotDefinedForGivenExpressions [OF t'])
  next
    case UnaryOperatorNotDefinedForGivenExpression
    with typed typed' have t: "UnaryOperatorMismatch (heap st) p"
      and t': "UnaryOperatorMismatch (heap st') p"
      by simp_all
    from t have op: "has_prop (heap st) ''op'' is_string p"
      and d: "has_prop (heap st) ''operand'' (TypeDescriptor (heap st)) p"
      by (simp_all add: UnaryOperatorMismatch_def)
    have "prop_of (heap st') p ''op'' = prop_of (heap st) p ''op''"
      unfolding later using op by (rule prop_of_append)
    moreover have "label (heap st') (prop_of (heap st') p ''operand'') =
        label (heap st) (prop_of (heap st) p ''operand'')"
      unfolding later using d by (rule label_prop_append)
    ultimately show ?thesis
      by (simp add: UnaryOperatorNotDefinedForGivenExpression
          typed_UnaryOperatorNotDefinedForGivenExpression [OF t]
          typed_UnaryOperatorNotDefinedForGivenExpression [OF t'])
  next
    case ExpressionMustReturnABoolean
    with typed typed' have t: "TypeDescriptor (heap st) p" and t': "TypeDescriptor (heap st') p"
      by simp_all
    from t have "label (heap st') p = label (heap st) p"
      unfolding later by (rule label_append)
    then show ?thesis
      by (simp add: ExpressionMustReturnABoolean typed_ExpressionMustReturnABoolean [OF t]
          typed_ExpressionMustReturnABoolean [OF t'])
  next
    case AllStarSelectionRequiresTableSources
    then show ?thesis
      by (simp add: message_AllStarSelectionRequiresTableSources_def returning_def)
  next
    case TableDefinitionRequiresAtLeastOneColumn
    then show ?thesis
      by (simp add: message_TableDefinitionRequiresAtLeastOneColumn_def returning_def)
  next
    case SubQueriesWithinSelectStatementsMustHaveExactlyOneColumn
    then show ?thesis
      by (simp add: message_SubQueriesWithinSelectStatementsMustHaveExactlyOneColumn_def
          returning_def)
  next
    case CannotDeriveTypeOfExpression
    then show ?thesis
      by (simp add: message_CannotDeriveTypeOfExpression_def returning_def)
  next
    case TableOperationUsesTablesWithDifferentColumnCounts
    then show ?thesis
      by (simp add: message_TableOperationUsesTablesWithDifferentColumnCounts_def
          returning_def)
  next
    case TableOperationUsesTablesWithDifferentColumnTypes
    with typed typed' have t: "has_prop (heap st) ''columnIndex'' is_number p"
      and t': "has_prop (heap st') ''columnIndex'' is_number p"
      by simp_all
    from t have "prop_of (heap st') p ''columnIndex'' = prop_of (heap st) p ''columnIndex''"
      unfolding later by (rule prop_of_append)
    then show ?thesis
      by (simp add: TableOperationUsesTablesWithDifferentColumnTypes
          typed_TableOperationUsesTablesWithDifferentColumnTypes [OF t]
          typed_TableOperationUsesTablesWithDifferentColumnTypes [OF t'])
  next
    case IncorrectGlobalReferenceTarget
    with typed typed' have x: "has_prop (heap st) ''expected'' is_string p"
      and r: "has_prop (heap st) ''received'' is_string p"
      and x': "has_prop (heap st') ''expected'' is_string p"
      and r': "has_prop (heap st') ''received'' is_string p"
      by simp_all
    have "prop_of (heap st') p ''expected'' = prop_of (heap st) p ''expected''"
      unfolding later using x by (rule prop_of_append)
    moreover have "prop_of (heap st') p ''received'' = prop_of (heap st) p ''received''"
      unfolding later using r by (rule prop_of_append)
    ultimately show ?thesis
      by (simp add: IncorrectGlobalReferenceTarget
          typed_IncorrectGlobalReferenceTarget [OF x r]
          typed_IncorrectGlobalReferenceTarget [OF x' r'])
  next
    case UnknownDataType
    with typed typed' have t: "has_prop (heap st) ''dataType'' (DataType (heap st)) p"
      and t': "has_prop (heap st') ''dataType'' (DataType (heap st')) p"
      by simp_all
    define d where "d = prop_of (heap st) p ''dataType''"
    have d': "prop_of (heap st') p ''dataType'' = d"
      unfolding later d_def using t by (rule prop_of_append)
    have "DataType (heap st) d"
      unfolding d_def using t by (rule has_prop_holds)
    then have ns: "has_prop (heap st) ''dataTypeNames'' (is_array_of is_string) d"
      and as: "has_prop (heap st) ''arguments'' (is_array_of (NumberLiteral (heap st))) d"
      by (simp_all add: DataType_def)
    have n': "prop_of (heap st') d ''dataTypeNames'' = prop_of (heap st) d ''dataTypeNames''"
      unfolding later using ns by (rule prop_of_append)
    have a': "prop_of (heap st') d ''arguments'' = prop_of (heap st) d ''arguments''"
      unfolding later using as by (rule prop_of_append)
    have args: "map (\<lambda>a. primitive_text (prop_of (heap st') a ''value''))
        (elements (prop_of (heap st) d ''arguments'')) =
        map (\<lambda>a. primitive_text (prop_of (heap st) a ''value''))
          (elements (prop_of (heap st) d ''arguments''))"
      unfolding later using has_prop_holds [OF as] by (rule arguments_append)
    show ?thesis
      by (simp add: UnknownDataType typed_UnknownDataType [OF t] typed_UnknownDataType [OF t']
          d' n' a' args d_def [symmetric])
  qed
qed

subsection \<open>The factory\<close>

lemma create_call:
  assumes "messageGenerator props st = Inr (m, st1)"
    and "diagnosticGenerator node st1 = Inr (info, st2)"
    and "info < length (heap st2)"
  shows "call (create code severity messageGenerator diagnosticGenerator) node props accept st =
    accept severity m info
      (st2\<lparr>heap := (heap st2)[info := AList.update ''code'' (VStr code) (heap st2 ! info)]\<rparr>)"
  using assms by (simp add: create_def stamped_def set_prop_def)

lemma field_stamped:
  "info < length h \<Longrightarrow>
   field (h[info := AList.update k v (h ! info)]) info k = Some v"
  by (simp add: field_def update_conv')

lemma typed_call:
  assumes "params_type e (heap st) props"
  shows "\<exists>m. message_of host e props st = Inr (m, st) \<and>
    (\<forall>node accept. call (ReportAs host e) node props accept st =
       accept Error m (length (heap st))
         (st\<lparr>heap := heap st @ [spec_info e node (Code (ReportAs host e))]\<rparr>))"
proof -
  obtain m where m: "message_of host e props st = Inr (m, st)"
    using typed_message [OF assms] by blast
  then show ?thesis
    by (simp add: ReportAs_call)
qed

subsection \<open>Outside the declared types\<close>

text \<open>
  The declared type matters: a record that lacks an operand makes the renderer raise.
\<close>

lemma missing_operand_raises:
  "message_of host BinaryOperatorNotDefinedForGivenExpressions (VObj [(''op'', VStr ''+'')]) st =
     Inl TypeError"
  by (simp add: message_BinaryOperatorNotDefinedForGivenExpressions_def and_then_def)

text \<open>
  So does the conversion of objects. A name that is a plain object is printed as
  \<^verbatim>\<open>[object Object]\<close>; a name whose own \<^verbatim>\<open>toString\<close> is not callable makes the renderer
  raise \<^verbatim>\<open>TypeError\<close>; and a name that converts through user code makes the message
  depend on the state and the rendering change it. None of these names is a string, so
  none of these records has the declared type.
\<close>

lemma plain_object_name:
  "message_of plain_objects DuplicatedVariableName (VObj [(''name'', VObj [])]) st =
     Inr (''Duplicated variable name '[object Object]'.'', st)"
  by (simp add: message_DuplicatedVariableName_def and_then_def returning_def
      plain_objects_def quoted_def)

lemma unconvertible_name_raises:
  "message_of plain_objects DuplicatedVariableName
     (VObj [(''name'', VObj [(''toString'', VNum (Finite False 2 1))])]) st = Inl TypeError"
  by (simp add: message_DuplicatedVariableName_def and_then_def plain_objects_def)

lemma object_name_runs_the_host:
  "message_of tracing DuplicatedVariableName (VObj [(''name'', VObj [])])
     \<lparr>heap = [], world = ''a''\<rparr> =
     Inr (''Duplicated variable name 'a'.'', \<lparr>heap = [], world = ''a!''\<rparr>)"
  by (simp add: message_DuplicatedVariableName_def and_then_def returning_def tracing_def
      quoted_def)

lemma object_name_not_typed:
  "\<not> params_type DuplicatedVariableName h (VObj [(''name'', VObj fs)])"
  by (simp add: Nameable_def has_prop_def is_string_def)

section \<open>The claims\<close>

text \<open>
  Claim C1. For each of the 13 entries of \<open>ReportAs\<close>, invoking the reporter on a node and
  a parameter record of the entry's declared type (written out or held in the store)
  hands the sink exactly one diagnostic: severity \<open>Error\<close>, the address of a new info
  object that holds the node reference, the property the spec's table declares for the
  entry (none for the whole node) and the entry's code, and a non-empty message that
  contains the textual form of every parameter value the table lists. This holds for
  every way the host converts objects to text.
\<close>

theorem catalogue_entry_reports_one_diagnostic:
  assumes "params_type e (heap st) props"
  shows "\<exists>m. call (ReportAs host e) node props collect st =
          Inr (st\<lparr>heap := heap st @ [spec_info e node (Code (ReportAs host e))],
                 world := world st @ [(Error, m, length (heap st))]\<rparr>) \<and>
        m \<noteq> [] \<and> (\<forall>t\<in>set (param_texts e (heap st) props). sublist t m)"
proof -
  from typed_message [OF assms] obtain m where
    m: "message_of host e props st = Inr (m, st)" "m \<noteq> []"
      "\<forall>t\<in>set (param_texts e (heap st) props). sublist t m"
    by blast
  have "call (ReportAs host e) node props collect st =
          Inr (st\<lparr>heap := heap st @ [spec_info e node (Code (ReportAs host e))],
                 world := world st @ [(Error, m, length (heap st))]\<rparr>)"
    by (simp add: ReportAs_call m(1) collect_def)
  with m show ?thesis by blast
qed

theorem catalogue_entry_reports_one_diagnostic_witness:
  "params_type BinaryOperatorNotDefinedForGivenExpressions
     [[(''$type'', VStr ''BinaryExpression'')]]
     (VObj [(''op'', VStr ''+''), (''left'', VObj [(''discriminator'', VStr ''integer'')]),
            (''right'', VObj [(''discriminator'', VStr ''text'')])]) \<and>
   call (ReportAs plain_objects BinaryOperatorNotDefinedForGivenExpressions) 0
     (VObj [(''op'', VStr ''+''), (''left'', VObj [(''discriminator'', VStr ''integer'')]),
            (''right'', VObj [(''discriminator'', VStr ''text'')])])
     collect \<lparr>heap = [[(''$type'', VStr ''BinaryExpression'')]], world = []\<rparr> =
   Inr \<lparr>heap = [[(''$type'', VStr ''BinaryExpression'')],
               [(''node'', VRef 0), (''property'', VStr ''operator''),
                (''code'', VStr ''SQL00003'')]],
        world = [(Error, ''Binary operator '+' is not defined for ('integer', 'text').'', 1)]\<rparr>"
proof -
  let ?p = "VObj [(''op'', VStr ''+''), (''left'', VObj [(''discriminator'', VStr ''integer'')]),
                  (''right'', VObj [(''discriminator'', VStr ''text'')])]"
  let ?st = "\<lparr>heap = [[(''$type'', VStr ''BinaryExpression'')]],
             world = [] :: (severity \<times> string \<times> nat) list\<rparr>"
  have h: "params_type BinaryOperatorNotDefinedForGivenExpressions (heap ?st) ?p"
    by (simp add: BinaryOperatorMismatch_def TypeDescriptor_def has_prop_def is_string_def)
  have run: "call (ReportAs plain_objects BinaryOperatorNotDefinedForGivenExpressions) 0 ?p
      collect ?st =
      Inr \<lparr>heap = [[(''$type'', VStr ''BinaryExpression'')],
                  [(''node'', VRef 0), (''property'', VStr ''operator''),
                   (''code'', VStr ''SQL00003'')]],
           world = [(Error, ''Binary operator '+' is not defined for ('integer', 'text').'', 1)]\<rparr>"
    by (simp add: reporter_defs message_BinaryOperatorNotDefinedForGivenExpressions_def
        quoted_def collect_def)
  from h have h': "params_type BinaryOperatorNotDefinedForGivenExpressions
     [[(''$type'', VStr ''BinaryExpression'')]] ?p"
    by simp
  from catalogue_entry_reports_one_diagnostic [OF h, of plain_objects 0] h' run show ?thesis
    by (intro conjI)
qed

text \<open>
  Claim C2. The codes of the 13 entries, in the order of the catalogue, are
  \<^verbatim>\<open>SQL00001\<close> to \<^verbatim>\<open>SQL00013\<close>: \<^verbatim>\<open>SQL\<close> and five digits, counting from 1 without a
  gap; they are pairwise distinct, and the key list names every entry.
\<close>

theorem codes_distinct_and_sequential:
  "map (\<lambda>e. Code (ReportAs host e)) ReportAs_keys = map spec_code [1..<14] \<and>
   distinct (map (\<lambda>e. Code (ReportAs host e)) ReportAs_keys) \<and>
   card (set (map (\<lambda>e. Code (ReportAs host e)) ReportAs_keys)) = 13 \<and>
   length ReportAs_keys = 13 \<and> set ReportAs_keys = UNIV"
proof -
  let ?codes = "[''SQL00001'', ''SQL00002'', ''SQL00003'', ''SQL00004'', ''SQL00005'',
    ''SQL00006'', ''SQL00007'', ''SQL00008'', ''SQL00009'', ''SQL00010'', ''SQL00011'',
    ''SQL00012'', ''SQL00013'']"
  have codes: "map (\<lambda>e. Code (ReportAs host e)) ReportAs_keys = ?codes"
    by (simp add: ReportAs_keys_def create_def)
  have "map spec_code [1..<14] = ?codes"
    apply (simp add: spec_code_def digits.simps upt_rec)
    apply (simp add: eval_nat_numeral)
    done
  with codes have pattern:
    "map (\<lambda>e. Code (ReportAs host e)) ReportAs_keys = map spec_code [1..<14]"
    by simp
  have d: "distinct ?codes"
    by simp
  then have "card (set ?codes) = length ?codes"
    by (rule distinct_card)
  then have c: "card (set ?codes) = 13"
    by simp
  have len: "length ReportAs_keys = 13"
    by (simp add: ReportAs_keys_def)
  have "e \<in> set ReportAs_keys" for e
    by (cases e) (simp_all add: ReportAs_keys_def)
  then have all: "set ReportAs_keys = UNIV"
    by blast
  from d c have "distinct (map (\<lambda>e. Code (ReportAs host e)) ReportAs_keys)"
    and "card (set (map (\<lambda>e. Code (ReportAs host e)) ReportAs_keys)) = 13"
    by (simp_all only: codes)
  with pattern len all show ?thesis
    by (intro conjI)
qed

text \<open>
  Claim C3. On every value of the declared parameter type the renderer of an entry returns
  a message, leaving the state as it was, and the reporter reaches the sink; it does not
  raise. Values at the edge of the type are printed as they are: any number, \<^verbatim>\<open>NaN\<close> and
  the infinities among them, appears as the host's text of it, index 0 and the largest
  safe integer appear in decimal, an empty name or operator gives an empty quotation, and
  a data type with no names and no arguments prints \<^verbatim>\<open>'()'\<close>.
\<close>

theorem renderer_never_throws:
  "(params_type e (heap st) props \<longrightarrow>
      (\<exists>m. message_of host e props st = Inr (m, st) \<and>
           (\<exists>st'. call (ReportAs host e) node props collect st = Inr st'))) \<and>
   message_of host NumericValueIsNotInteger (VObj [(''value'', VNum x)]) s =
     Inr (''Value '' @ quoted (Number_toString x) @ '' is not an integer.'', s) \<and>
   message_of host NumericValueIsNotInteger (VObj [(''value'', VNum NaN)]) s =
     Inr (''Value 'NaN' is not an integer.'', s) \<and>
   message_of host NumericValueIsNotInteger (VObj [(''value'', VNum NegInfinity)]) s =
     Inr (''Value '-Infinity' is not an integer.'', s) \<and>
   message_of host TableOperationUsesTablesWithDifferentColumnTypes
       (VObj [(''columnIndex'', VNum Zero)]) s =
     Inr (''This operation uses tables with different columns types! '' @
          ''Compare the columns at index 0. They are not convertable to each other.'', s) \<and>
   message_of host TableOperationUsesTablesWithDifferentColumnTypes
       (VObj [(''columnIndex'', VNum (Finite False 9007199254740991 16))]) s =
     Inr (''This operation uses tables with different columns types! '' @
          ''Compare the columns at index 9007199254740991. '' @
          ''They are not convertable to each other.'', s) \<and>
   message_of host TableOperationUsesTablesWithDifferentColumnTypes
       (VObj [(''columnIndex'', VNum PosInfinity)]) s =
     Inr (''This operation uses tables with different columns types! '' @
          ''Compare the columns at index Infinity. They are not convertable to each other.'',
          s) \<and>
   message_of host DuplicatedVariableName (VObj [(''name'', VStr [])]) s =
     Inr (''Duplicated variable name '' @ quoted [] @ ''.'', s) \<and>
   message_of host UnaryOperatorNotDefinedForGivenExpression
       (VObj [(''op'', VStr []), (''operand'', VObj [(''discriminator'', VStr ''boolean'')])])
       s =
     Inr (''Unary operator '' @ quoted [] @ '' is not defined for 'boolean'.'', s) \<and>
   message_of host UnknownDataType
       (VObj [(''dataType'', VObj [(''dataTypeNames'', VArr []), (''arguments'', VArr [])])])
       s =
     Inr (''Unknown data type '()'.'', s)"
proof -
  have typed: "params_type e (heap st) props \<longrightarrow>
      (\<exists>m. message_of host e props st = Inr (m, st) \<and>
           (\<exists>st'. call (ReportAs host e) node props collect st = Inr st'))"
  proof
    assume "params_type e (heap st) props"
    then obtain m where m: "message_of host e props st = Inr (m, st)"
      using typed_message by blast
    then have "\<exists>st'. call (ReportAs host e) node props collect st = Inr st'"
      by (simp add: ReportAs_call collect_def)
    with m show "\<exists>m. message_of host e props st = Inr (m, st) \<and>
        (\<exists>st'. call (ReportAs host e) node props collect st = Inr st')"
      by blast
  qed
  have number: "message_of host NumericValueIsNotInteger (VObj [(''value'', VNum x)]) s =
      Inr (''Value '' @ quoted (Number_toString x) @ '' is not an integer.'', s)"
    by (simp add: message_NumericValueIsNotInteger_def and_then_def returning_def)
  have nan: "message_of host NumericValueIsNotInteger (VObj [(''value'', VNum NaN)]) s =
      Inr (''Value 'NaN' is not an integer.'', s)"
    by (simp add: message_NumericValueIsNotInteger_def and_then_def returning_def quoted_def)
  have ninf: "message_of host NumericValueIsNotInteger (VObj [(''value'', VNum NegInfinity)]) s =
      Inr (''Value '-Infinity' is not an integer.'', s)"
    by (simp add: message_NumericValueIsNotInteger_def and_then_def returning_def quoted_def)
  have zero: "message_of host TableOperationUsesTablesWithDifferentColumnTypes
       (VObj [(''columnIndex'', VNum Zero)]) s =
     Inr (''This operation uses tables with different columns types! '' @
          ''Compare the columns at index 0. They are not convertable to each other.'', s)"
    by (simp add: message_TableOperationUsesTablesWithDifferentColumnTypes_def and_then_def
        returning_def)
  have digits_max: "digits 9007199254740991 = ''9007199254740991''"
    by (simp add: digits.simps)
  have max: "message_of host TableOperationUsesTablesWithDifferentColumnTypes
       (VObj [(''columnIndex'', VNum (Finite False 9007199254740991 16))]) s =
     Inr (''This operation uses tables with different columns types! '' @
          ''Compare the columns at index 9007199254740991. '' @
          ''They are not convertable to each other.'', s)"
    by (simp add: message_TableOperationUsesTablesWithDifferentColumnTypes_def and_then_def
        returning_def positive_text_def digits_max)
  have inf: "message_of host TableOperationUsesTablesWithDifferentColumnTypes
       (VObj [(''columnIndex'', VNum PosInfinity)]) s =
     Inr (''This operation uses tables with different columns types! '' @
          ''Compare the columns at index Infinity. They are not convertable to each other.'',
          s)"
    by (simp add: message_TableOperationUsesTablesWithDifferentColumnTypes_def and_then_def
        returning_def)
  have empty_name: "message_of host DuplicatedVariableName (VObj [(''name'', VStr [])]) s =
     Inr (''Duplicated variable name '' @ quoted [] @ ''.'', s)"
    by (simp add: message_DuplicatedVariableName_def and_then_def returning_def)
  have empty_op: "message_of host UnaryOperatorNotDefinedForGivenExpression
       (VObj [(''op'', VStr []), (''operand'', VObj [(''discriminator'', VStr ''boolean'')])])
       s =
     Inr (''Unary operator '' @ quoted [] @ '' is not defined for 'boolean'.'', s)"
    by (simp add: message_UnaryOperatorNotDefinedForGivenExpression_def and_then_def
        returning_def quoted_def)
  have no_names: "message_of host UnknownDataType
       (VObj [(''dataType'', VObj [(''dataTypeNames'', VArr []), (''arguments'', VArr [])])])
       s =
     Inr (''Unknown data type '()'.'', s)"
    by (simp add: message_UnknownDataType_def and_then_def returning_def join_def quoted_def)
  from typed number nan ninf zero max inf empty_name empty_op no_names show ?thesis
    by (intro conjI)
qed

theorem renderer_never_throws_witness:
  "params_type UnknownDataType
     [[(''$type'', VStr ''DataType''),
       (''dataTypeNames'', VArr [VStr ''DOUBLE'', VStr ''PRECISION'']),
       (''arguments'', VArr [VRef 1, VRef 2])],
      [(''$type'', VStr ''NumberLiteral''), (''value'', VNum (Finite False 38 2))],
      [(''$type'', VStr ''NumberLiteral''), (''value'', VNum (Finite False 5 0))],
      [(''dataType'', VRef 0)]]
     (VRef 3) \<and>
   call (ReportAs plain_objects UnknownDataType) 0 (VRef 3) collect
     \<lparr>heap =
     [[(''$type'', VStr ''DataType''),
       (''dataTypeNames'', VArr [VStr ''DOUBLE'', VStr ''PRECISION'']),
       (''arguments'', VArr [VRef 1, VRef 2])],
      [(''$type'', VStr ''NumberLiteral''), (''value'', VNum (Finite False 38 2))],
      [(''$type'', VStr ''NumberLiteral''), (''value'', VNum (Finite False 5 0))],
      [(''dataType'', VRef 0)]],
      world = []\<rparr> =
   Inr \<lparr>heap =
     [[(''$type'', VStr ''DataType''),
       (''dataTypeNames'', VArr [VStr ''DOUBLE'', VStr ''PRECISION'']),
       (''arguments'', VArr [VRef 1, VRef 2])],
      [(''$type'', VStr ''NumberLiteral''), (''value'', VNum (Finite False 38 2))],
      [(''$type'', VStr ''NumberLiteral''), (''value'', VNum (Finite False 5 0))],
      [(''dataType'', VRef 0)],
      [(''node'', VRef 0), (''code'', VStr ''SQL00013'')]],
      world = [(Error, ''Unknown data type 'DOUBLE PRECISION(38, 0.5)'.'', 4)]\<rparr>"
proof -
  let ?h = "[[(''$type'', VStr ''DataType''),
       (''dataTypeNames'', VArr [VStr ''DOUBLE'', VStr ''PRECISION'']),
       (''arguments'', VArr [VRef 1, VRef 2])],
      [(''$type'', VStr ''NumberLiteral''), (''value'', VNum (Finite False 38 2))],
      [(''$type'', VStr ''NumberLiteral''), (''value'', VNum (Finite False 5 0))],
      [(''dataType'', VRef 0)]]"
  let ?st = "\<lparr>heap = ?h, world = [] :: (severity \<times> string \<times> nat) list\<rparr>"
  have h: "params_type UnknownDataType (heap ?st) (VRef 3)"
    by (simp add: DataType_def NumberLiteral_def has_prop_def is_array_of_def is_string_def
        is_number_def)
  have d: "digits 38 = ''38''" "digits 5 = ''5''"
    by (simp_all add: digits.simps)
  have run: "call (ReportAs plain_objects UnknownDataType) 0 (VRef 3) collect ?st =
      Inr \<lparr>heap = ?h @ [[(''node'', VRef 0), (''code'', VStr ''SQL00013'')]],
           world = [(Error, ''Unknown data type 'DOUBLE PRECISION(38, 0.5)'.'', 4)]\<rparr>"
    by (simp add: reporter_defs message_UnknownDataType_def join_def quoted_def
        positive_text_def Let_def d collect_def)
  from h have h': "params_type UnknownDataType ?h (VRef 3)"
    by simp
  from run have run': "call (ReportAs plain_objects UnknownDataType) 0 (VRef 3) collect ?st =
      Inr \<lparr>heap =
     [[(''$type'', VStr ''DataType''),
       (''dataTypeNames'', VArr [VStr ''DOUBLE'', VStr ''PRECISION'']),
       (''arguments'', VArr [VRef 1, VRef 2])],
      [(''$type'', VStr ''NumberLiteral''), (''value'', VNum (Finite False 38 2))],
      [(''$type'', VStr ''NumberLiteral''), (''value'', VNum (Finite False 5 0))],
      [(''dataType'', VRef 0)],
      [(''node'', VRef 0), (''code'', VStr ''SQL00013'')]],
      world = [(Error, ''Unknown data type 'DOUBLE PRECISION(38, 0.5)'.'', 4)]\<rparr>"
    by simp
  from renderer_never_throws [of UnknownDataType ?st "VRef 3" plain_objects 0] h' run'
  show ?thesis
    by (intro conjI)
qed

text \<open>
  Claim C4. \<^verbatim>\<open>ReportAs.DuplicatedVariableName\<close> on \<^verbatim>\<open>{name: "x"}\<close> calls the sink with
  severity \<open>Error\<close>, the message \<^verbatim>\<open>Duplicated variable name 'x'.\<close> and an info object that
  holds the given node, the property \<^verbatim>\<open>name\<close> and the code \<^verbatim>\<open>SQL00001\<close>.
\<close>

theorem DuplicatedVariableName_example:
  "call (ReportAs host DuplicatedVariableName) node (VObj [(''name'', VStr ''x'')]) accept st =
     accept Error ''Duplicated variable name 'x'.'' (length (heap st))
       (st\<lparr>heap := heap st @
            [[(''node'', VRef node), (''property'', VStr ''name''),
              (''code'', VStr ''SQL00001'')]]\<rparr>)"
  by (simp add: reporter_defs message_DuplicatedVariableName_def quoted_def)

text \<open>
  Claim C5. \<^verbatim>\<open>ReportAs.TableOperationUsesTablesWithDifferentColumnTypes\<close> on
  \<^verbatim>\<open>{columnIndex: 2}\<close> calls the sink with severity \<open>Error\<close>, a message that contains
  \<^verbatim>\<open>index 2\<close>, and an info object stamped with the code \<^verbatim>\<open>SQL00011\<close>.
\<close>

theorem TableOperationUsesTablesWithDifferentColumnTypes_example:
  "\<exists>m. call (ReportAs host TableOperationUsesTablesWithDifferentColumnTypes) node
          (VObj [(''columnIndex'', VNum (Finite False 2 1))]) accept st =
        accept Error m (length (heap st))
          (st\<lparr>heap := heap st @
               [[(''node'', VRef node), (''property'', VStr ''operator''),
                 (''code'', VStr ''SQL00011'')]]\<rparr>) \<and>
       m = ''This operation uses tables with different columns types! '' @
           ''Compare the columns at index 2. They are not convertable to each other.'' \<and>
       sublist ''index 2'' m"
proof -
  have two: "Number_toString (Finite False 2 1) = ''2''"
    by (simp add: positive_text_def Let_def digits.simps)
  have "message_TableOperationUsesTablesWithDifferentColumnTypes host
          (VObj [(''columnIndex'', VNum (Finite False 2 1))]) st =
        Inr (''This operation uses tables with different columns types! '' @
             ''Compare the columns at index 2. They are not convertable to each other.'', st)"
    unfolding message_TableOperationUsesTablesWithDifferentColumnTypes_def
    by (simp add: two and_then_def returning_def del: Number_toString.simps)
  then have run: "call (ReportAs host TableOperationUsesTablesWithDifferentColumnTypes) node
          (VObj [(''columnIndex'', VNum (Finite False 2 1))]) accept st =
        accept Error
          (''This operation uses tables with different columns types! '' @
           ''Compare the columns at index 2. They are not convertable to each other.'')
          (length (heap st))
          (st\<lparr>heap := heap st @
               [[(''node'', VRef node), (''property'', VStr ''operator''),
                 (''code'', VStr ''SQL00011'')]]\<rparr>)"
    by (simp add: create_def stamped_def node_property_def new_object_def set_prop_def)
  have "sublist ''index 2''
          ((''This operation uses tables with different columns types! '' @
            ''Compare the columns at '') @ ''index 2'' @
           ''. They are not convertable to each other.'')"
    by (rule sublist_appendI)
  then have "sublist ''index 2''
          (''This operation uses tables with different columns types! '' @
           ''Compare the columns at index 2. They are not convertable to each other.'')"
    by simp
  with run show ?thesis by blast
qed

text \<open>
  Claim C6. A renderer is a program of the host language: it runs in a state, it may
  call the host's conversion of objects, which may read and change the state, and it
  returns the state it ends in. On a record of the declared type there is one message
  \<open>m\<close> such that

    \<^item> rendering returns \<open>m\<close> and leaves the store and the collaborators' state exactly as
      they were, whatever the host's conversion does (it is never run);

    \<^item> the reporter hands \<open>m\<close> to the sink in a state that differs from the state before
      only by the new info object;

    \<^item> rendering any record of the declared type with the same content, in any other
      state and under any other host, returns \<open>m\<close> again: the message is a function of
      the content of the record alone, whether the record is written out or held in the
      store;

    \<^item> two invocations one after the other, on any two nodes, hand the sink \<open>m\<close> twice,
      although the first invocation has changed the store.

  Outside the declared type this fails, see \<open>object_name_runs_the_host\<close>.
\<close>

theorem rendering_deterministic:
  "params_type e (heap st) props \<longrightarrow>
     (\<exists>m.
        (\<forall>host. message_of host e props st = Inr (m, st)) \<and>
        (\<forall>host node accept.
           call (ReportAs host e) node props accept st =
             accept Error m (length (heap st))
               (st\<lparr>heap := heap st @ [spec_info e node (Code (ReportAs host e))]\<rparr>)) \<and>
        (\<forall>host st' props'.
           params_type e (heap st') props' \<longrightarrow>
           record_content (heap st') props' = record_content (heap st) props \<longrightarrow>
           message_of host e props' st' = Inr (m, st')) \<and>
        (\<forall>host node1 node2 keep. \<exists>st1 st2.
           call (ReportAs host e) node1 props (noting keep) st = Inr st1 \<and>
           call (ReportAs host e) node2 props (noting keep) st1 = Inr st2 \<and>
           world st2 = keep m (keep m (world st))))"
proof
  assume typed: "params_type e (heap st) props"
  obtain m where m0: "message_of plain_objects e props st = Inr (m, st)"
    using typed_message [OF typed] by blast
  have pure: "message_of host e props' st' = Inr (m, st')"
    if "params_type e (heap st') props'"
      and "record_content (heap st') props' = record_content (heap st) props"
    for host st' props'
    using equal_records_equal_messages [OF typed that(1) that(2) [symmetric] m0] .
  have m: "message_of host e props st = Inr (m, st)" for host
    using typed by (rule pure) simp
  have run: "call (ReportAs host e) node props accept st =
      accept Error m (length (heap st))
        (st\<lparr>heap := heap st @ [spec_info e node (Code (ReportAs host e))]\<rparr>)"
    for host node accept
    by (simp add: ReportAs_call m)
  have twice: "\<exists>st1 st2.
      call (ReportAs host e) node1 props (noting keep) st = Inr st1 \<and>
      call (ReportAs host e) node2 props (noting keep) st1 = Inr st2 \<and>
      world st2 = keep m (keep m (world st))"
    for host node1 node2 keep
  proof -
    define st1 where "st1 = st\<lparr>heap := heap st @ [spec_info e node1 (Code (ReportAs host e))],
      world := keep m (world st)\<rparr>"
    have first: "call (ReportAs host e) node1 props (noting keep) st = Inr st1"
      by (simp add: run noting_def st1_def)
    have "heap st1 = heap st @ [spec_info e node1 (Code (ReportAs host e))]"
      by (simp add: st1_def)
    from extended_store_message [OF typed this, of host host]
    have again: "message_of host e props st1 = Inr (m, st1)"
      by (simp add: m)
    have "call (ReportAs host e) node2 props (noting keep) st1 =
        Inr (st1\<lparr>heap := heap st1 @ [spec_info e node2 (Code (ReportAs host e))],
               world := keep m (world st1)\<rparr>)"
      by (simp add: ReportAs_call again noting_def)
    moreover have "world (st1\<lparr>heap := heap st1 @ [spec_info e node2 (Code (ReportAs host e))],
               world := keep m (world st1)\<rparr>) = keep m (keep m (world st))"
      by (simp add: st1_def)
    ultimately show ?thesis
      using first by blast
  qed
  show "\<exists>m.
        (\<forall>host. message_of host e props st = Inr (m, st)) \<and>
        (\<forall>host node accept.
           call (ReportAs host e) node props accept st =
             accept Error m (length (heap st))
               (st\<lparr>heap := heap st @ [spec_info e node (Code (ReportAs host e))]\<rparr>)) \<and>
        (\<forall>host st' props'.
           params_type e (heap st') props' \<longrightarrow>
           record_content (heap st') props' = record_content (heap st) props \<longrightarrow>
           message_of host e props' st' = Inr (m, st')) \<and>
        (\<forall>host node1 node2 keep. \<exists>st1 st2.
           call (ReportAs host e) node1 props (noting keep) st = Inr st1 \<and>
           call (ReportAs host e) node2 props (noting keep) st1 = Inr st2 \<and>
           world st2 = keep m (keep m (world st)))"
    apply (rule exI [of _ m])
    apply (intro conjI allI impI)
       apply (rule m)
      apply (rule run)
     apply (rule pure; assumption)
    apply (rule twice)
    done
qed

theorem rendering_deterministic_witness:
  "params_type IncorrectGlobalReferenceTarget
     [[(''$type'', VStr ''GlobalReference'')],
      [(''expected'', VStr ''table''), (''received'', VStr ''schema'')]]
     (VRef 1) \<and>
   params_type IncorrectGlobalReferenceTarget []
     (VObj [(''expected'', VStr ''table''), (''received'', VStr ''schema'')]) \<and>
   record_content [] (VObj [(''expected'', VStr ''table''), (''received'', VStr ''schema'')]) =
     record_content
       [[(''$type'', VStr ''GlobalReference'')],
        [(''expected'', VStr ''table''), (''received'', VStr ''schema'')]]
       (VRef 1) \<and>
   message_of tracing IncorrectGlobalReferenceTarget (VRef 1)
     \<lparr>heap = [[(''$type'', VStr ''GlobalReference'')],
              [(''expected'', VStr ''table''), (''received'', VStr ''schema'')]],
      world = ''before''\<rparr> =
     Inr (''Expected definition of type 'table' but received 'schema'.'',
       \<lparr>heap = [[(''$type'', VStr ''GlobalReference'')],
                [(''expected'', VStr ''table''), (''received'', VStr ''schema'')]],
        world = ''before''\<rparr>) \<and>
   message_of tracing IncorrectGlobalReferenceTarget
     (VObj [(''expected'', VStr ''table''), (''received'', VStr ''schema'')])
     \<lparr>heap = [], world = ''elsewhere''\<rparr> =
     Inr (''Expected definition of type 'table' but received 'schema'.'',
       \<lparr>heap = [], world = ''elsewhere''\<rparr>) \<and>
   (\<exists>st1 st2.
      call (ReportAs tracing IncorrectGlobalReferenceTarget) 0 (VRef 1)
        (noting (\<lambda>message w. w @ ''|'' @ message))
        \<lparr>heap = [[(''$type'', VStr ''GlobalReference'')],
                 [(''expected'', VStr ''table''), (''received'', VStr ''schema'')]],
         world = ''before''\<rparr> = Inr st1 \<and>
      call (ReportAs tracing IncorrectGlobalReferenceTarget) 0 (VRef 1)
        (noting (\<lambda>message w. w @ ''|'' @ message)) st1 = Inr st2 \<and>
      world st2 =
        ''before|Expected definition of type 'table' but received 'schema'.'' @
        ''|Expected definition of type 'table' but received 'schema'.'')"
proof -
  let ?h = "[[(''$type'', VStr ''GlobalReference'')],
             [(''expected'', VStr ''table''), (''received'', VStr ''schema'')]]"
  let ?st = "\<lparr>heap = ?h, world = ''before''\<rparr>"
  let ?q = "VObj [(''expected'', VStr ''table''), (''received'', VStr ''schema'')]"
  let ?st' = "\<lparr>heap = [], world = ''elsewhere''\<rparr>"
  let ?m = "''Expected definition of type 'table' but received 'schema'.''"
  have h: "params_type IncorrectGlobalReferenceTarget (heap ?st) (VRef 1)"
    by (simp add: has_prop_def is_string_def)
  have q: "params_type IncorrectGlobalReferenceTarget (heap ?st') ?q"
    by (simp add: has_prop_def is_string_def)
  have same: "record_content (heap ?st') ?q = record_content (heap ?st) (VRef 1)"
    by (simp add: record_content_def eval_nat_numeral)
  have msg: "message_of tracing IncorrectGlobalReferenceTarget (VRef 1) ?st = Inr (?m, ?st)"
    by (simp add: message_IncorrectGlobalReferenceTarget_def and_then_def returning_def
        quoted_def)
  from rendering_deterministic [of IncorrectGlobalReferenceTarget ?st "VRef 1"] h
  obtain m where
    a: "\<forall>host. message_of host IncorrectGlobalReferenceTarget (VRef 1) ?st = Inr (m, ?st)"
    and c: "\<forall>host (st' :: string state) props'.
        params_type IncorrectGlobalReferenceTarget (heap st') props' \<longrightarrow>
        record_content (heap st') props' = record_content (heap ?st) (VRef 1) \<longrightarrow>
        message_of host IncorrectGlobalReferenceTarget props' st' = Inr (m, st')"
    and d: "\<forall>host node1 node2 keep. \<exists>st1 st2.
        call (ReportAs host IncorrectGlobalReferenceTarget) node1 (VRef 1) (noting keep) ?st =
          Inr st1 \<and>
        call (ReportAs host IncorrectGlobalReferenceTarget) node2 (VRef 1) (noting keep) st1 =
          Inr st2 \<and>
        world st2 = keep m (keep m (world ?st))"
    by blast
  from a msg have m: "m = ?m"
    by simp
  have other: "message_of tracing IncorrectGlobalReferenceTarget ?q ?st' = Inr (m, ?st')"
    by (rule c [rule_format, OF q same])
  from d [THEN spec [where x = tracing], THEN spec [where x = 0], THEN spec [where x = 0],
      THEN spec [where x = "\<lambda>message w. w @ ''|'' @ message"]]
  obtain st1 st2 where
    "call (ReportAs tracing IncorrectGlobalReferenceTarget) 0 (VRef 1)
        (noting (\<lambda>message w. w @ ''|'' @ message)) ?st = Inr st1"
    "call (ReportAs tracing IncorrectGlobalReferenceTarget) 0 (VRef 1)
        (noting (\<lambda>message w. w @ ''|'' @ message)) st1 = Inr st2"
    "world st2 = (\<lambda>message w. w @ ''|'' @ message) m
        ((\<lambda>message w. w @ ''|'' @ message) m (world ?st))"
    by blast
  then have twice: "\<exists>st1 st2.
      call (ReportAs tracing IncorrectGlobalReferenceTarget) 0 (VRef 1)
        (noting (\<lambda>message w. w @ ''|'' @ message)) ?st = Inr st1 \<and>
      call (ReportAs tracing IncorrectGlobalReferenceTarget) 0 (VRef 1)
        (noting (\<lambda>message w. w @ ''|'' @ message)) st1 = Inr st2 \<and>
      world st2 =
        ''before|Expected definition of type 'table' but received 'schema'.'' @
        ''|Expected definition of type 'table' but received 'schema'.''"
    unfolding m by (intro exI conjI) simp_all
  from h have h': "params_type IncorrectGlobalReferenceTarget ?h (VRef 1)"
    by simp
  from q have q': "params_type IncorrectGlobalReferenceTarget [] ?q"
    by simp
  from same have same': "record_content [] ?q = record_content ?h (VRef 1)"
    by simp
  from other m have other':
    "message_of tracing IncorrectGlobalReferenceTarget ?q ?st' = Inr (?m, ?st')"
    by simp
  from h' q' same' msg other' twice show ?thesis
    by (intro conjI)
qed

text \<open>
  Claim C7. A reporter made by \<open>create\<close> carries the code it was made with in its \<open>Code\<close>
  field, readable without a call. When the two generators return and the resolver's
  target is an object of the store, the sink is called on that target, and at the moment
  of the call the target's \<^verbatim>\<open>code\<close> field holds the same code.
\<close>

theorem create_exposes_and_stamps_code:
  "Code (create code severity messageGenerator diagnosticGenerator) = code \<and>
   (messageGenerator props st = Inr (m, st1) \<longrightarrow>
    diagnosticGenerator node st1 = Inr (info, st2) \<longrightarrow>
    info < length (heap st2) \<longrightarrow>
      (\<exists>st3. call (create code severity messageGenerator diagnosticGenerator)
               node props accept st = accept severity m info st3 \<and>
             field (heap st3) info ''code'' = Some (VStr code) \<and>
             st3 = st2\<lparr>heap := (heap st2)
                     [info := AList.update ''code'' (VStr code) (heap st2 ! info)]\<rparr>))"
proof (intro conjI impI)
  show "Code (create code severity messageGenerator diagnosticGenerator) = code"
    by (simp add: create_def)
next
  assume "messageGenerator props st = Inr (m, st1)"
    and "diagnosticGenerator node st1 = Inr (info, st2)"
    and valid: "info < length (heap st2)"
  then have "call (create code severity messageGenerator diagnosticGenerator)
      node props accept st =
    accept severity m info
      (st2\<lparr>heap := (heap st2)
         [info := AList.update ''code'' (VStr code) (heap st2 ! info)]\<rparr>)"
    by (rule create_call)
  moreover have "field (heap (st2\<lparr>heap := (heap st2)
         [info := AList.update ''code'' (VStr code) (heap st2 ! info)]\<rparr>))
       info ''code'' = Some (VStr code)"
    using valid by (simp add: field_stamped)
  ultimately show "\<exists>st3. call (create code severity messageGenerator diagnosticGenerator)
               node props accept st = accept severity m info st3 \<and>
             field (heap st3) info ''code'' = Some (VStr code) \<and>
             st3 = st2\<lparr>heap := (heap st2)
                     [info := AList.update ''code'' (VStr code) (heap st2 ! info)]\<rparr>"
    by blast
qed

theorem create_exposes_and_stamps_code_witness:
  "Code (create ''SQL00002'' Error (message_NumericValueIsNotInteger plain_objects)
           (node_property ''value'') :: (val, unit) reporter) = ''SQL00002'' \<and>
   message_NumericValueIsNotInteger plain_objects
       (VObj [(''value'', VNum (Finite False 15 1))]) \<lparr>heap = [[]], world = ()\<rparr> =
     Inr (''Value '1.5' is not an integer.'', \<lparr>heap = [[]], world = ()\<rparr>) \<and>
   node_property ''value'' 0 \<lparr>heap = [[]], world = ()\<rparr> =
     Inr (1, \<lparr>heap = [[], [(''node'', VRef 0), (''property'', VStr ''value'')]],
              world = ()\<rparr>) \<and>
   (1::nat) < length (heap \<lparr>heap = [[], [(''node'', VRef 0), (''property'', VStr ''value'')]],
                           world = ()\<rparr>) \<and>
   call (create ''SQL00002'' Error (message_NumericValueIsNotInteger plain_objects)
           (node_property ''value''))
     0 (VObj [(''value'', VNum (Finite False 15 1))]) (\<lambda>severity message info s. Inr s)
     \<lparr>heap = [[]], world = ()\<rparr> =
     Inr \<lparr>heap = [[], [(''node'', VRef 0), (''property'', VStr ''value''),
                       (''code'', VStr ''SQL00002'')]],
          world = ()\<rparr> \<and>
   field [[], [(''node'', VRef 0), (''property'', VStr ''value''),
               (''code'', VStr ''SQL00002'')]] 1 ''code'' =
     Some (VStr ''SQL00002'')"
proof -
  let ?p = "VObj [(''value'', VNum (Finite False 15 1))]"
  let ?st = "\<lparr>heap = [[]], world = ()\<rparr>"
  let ?st2 = "\<lparr>heap = [[], [(''node'', VRef 0), (''property'', VStr ''value'')]],
              world = ()\<rparr>"
  have n: "Number_toString (Finite False 15 1) = ''1.5''"
    by (simp add: positive_text_def Let_def digits.simps)
  have mg: "message_NumericValueIsNotInteger plain_objects ?p ?st =
      Inr (''Value '1.5' is not an integer.'', ?st)"
    unfolding message_NumericValueIsNotInteger_def
    by (simp add: n quoted_def and_then_def returning_def del: Number_toString.simps)
  have dg: "node_property ''value'' 0 ?st = Inr (1, ?st2)"
    by (simp add: node_property_def new_object_def)
  have valid: "(1::nat) < length (heap ?st2)"
    by simp
  have code: "Code (create ''SQL00002'' Error (message_NumericValueIsNotInteger plain_objects)
           (node_property ''value'') :: (val, unit) reporter) = ''SQL00002''"
    by (simp add: create_def)
  from create_exposes_and_stamps_code [of "''SQL00002''" Error
      "message_NumericValueIsNotInteger plain_objects" "node_property ''value''" ?p ?st
      "''Value '1.5' is not an integer.''" ?st 0 1 ?st2 "\<lambda>severity message info s. Inr s"]
    mg dg valid
  have "call (create ''SQL00002'' Error (message_NumericValueIsNotInteger plain_objects)
           (node_property ''value''))
     0 ?p (\<lambda>severity message info s. Inr s) ?st =
     Inr \<lparr>heap = [[], [(''node'', VRef 0), (''property'', VStr ''value''),
                       (''code'', VStr ''SQL00002'')]],
          world = ()\<rparr>"
    and "field [[], [(''node'', VRef 0), (''property'', VStr ''value''),
               (''code'', VStr ''SQL00002'')]] 1 ''code'' =
     Some (VStr ''SQL00002'')"
    by auto
  with code mg dg valid show ?thesis
    by (intro conjI)
qed



text \<open>
  Claim C9. The severity type has the four levels \<open>Error\<close>, \<open>Warning\<close>, \<open>Info\<close>, \<open>Hint\<close>.
  Every entry of the catalogue is made by \<open>create\<close> with severity \<open>Error\<close>, so whenever a
  catalogue reporter calls the sink, the severity it passes is \<open>Error\<close>.
\<close>

theorem catalogue_severity_is_error:
  "(UNIV :: severity set) = {Error, Warning, Info, Hint} \<and>
   distinct [Error, Warning, Info, Hint] \<and>
   ReportAs host e =
     create (Code (ReportAs host e)) Error (message_of host e)
       (case spec_property e of None \<Rightarrow> whole_node | Some p \<Rightarrow> node_property p) \<and>
   call (ReportAs host e) node props accept st =
     (case message_of host e props st of
        Inl x \<Rightarrow> Inl x
      | Inr (m, st1) \<Rightarrow>
          accept Error m (length (heap st1))
            (st1\<lparr>heap := heap st1 @ [spec_info e node (Code (ReportAs host e))]\<rparr>))"
proof (intro conjI)
  show "(UNIV :: severity set) = {Error, Warning, Info, Hint}"
  proof -
    have "s \<in> {Error, Warning, Info, Hint}" for s
      by (cases s) simp_all
    then show ?thesis by blast
  qed
  show "distinct [Error, Warning, Info, Hint]"
    by simp
  show "ReportAs host e =
     create (Code (ReportAs host e)) Error (message_of host e)
       (case spec_property e of None \<Rightarrow> whole_node | Some p \<Rightarrow> node_property p)"
    by (cases e) (simp_all add: create_def)
  show "call (ReportAs host e) node props accept st =
     (case message_of host e props st of
        Inl x \<Rightarrow> Inl x
      | Inr (m, st1) \<Rightarrow>
          accept Error m (length (heap st1))
            (st1\<lparr>heap := heap st1 @ [spec_info e node (Code (ReportAs host e))]\<rparr>))"
    by (rule ReportAs_call)
qed

text \<open>
  Claim C10. For an entry of the catalogue on a record of its declared type, the info
  object handed to the sink is new: its address is not an address of the store before
  the call. Its \<^verbatim>\<open>node\<close> field is the reference that was passed in. It is the object
  literal of the resolver, which has no \<^verbatim>\<open>code\<close> field, after the assignment of the
  code. Every object of the store before the call is unchanged, and so is the state of
  the collaborators. In particular the parameter record has the fields it had, also when
  it is an object of the store; the node, when it is an object of the store, has the
  fields it had, also when the record refers to it; the record still has its declared
  type, and rendering it after the call gives the same message.
\<close>

theorem reporter_frame:
  assumes "params_type e (heap st) props"
  shows "\<exists>m literal st'.
    call (ReportAs host e) node props accept st = accept Error m (length (heap st)) st' \<and>
    st' = st\<lparr>heap := heap st @
            [AList.update ''code'' (VStr (Code (ReportAs host e))) literal]\<rparr> \<and>
    map_of literal ''node'' = Some (VRef node) \<and>
    map_of literal ''code'' = None \<and>
    field (heap st') (length (heap st)) ''node'' = Some (VRef node) \<and>
    field (heap st) (length (heap st)) ''node'' = None \<and>
    take (length (heap st)) (heap st') = heap st \<and>
    world st' = world st \<and>
    message_of host e props st = Inr (m, st) \<and>
    fields_of (heap st') props = fields_of (heap st) props \<and>
    (node < length (heap st) \<longrightarrow>
       fields_of (heap st') (VRef node) = fields_of (heap st) (VRef node)) \<and>
    params_type e (heap st') props \<and>
    message_of host e props st' = Inr (m, st')"
proof -
  from assms obtain m where m: "message_of host e props st = Inr (m, st)"
    using typed_message by blast
  define literal :: object where
    "literal = (''node'', VRef node) #
       (case spec_property e of None \<Rightarrow> [] | Some p \<Rightarrow> [(''property'', VStr p)])"
  define st' where "st' = st\<lparr>heap := heap st @
      [AList.update ''code'' (VStr (Code (ReportAs host e))) literal]\<rparr>"
  have stamped: "AList.update ''code'' (VStr c) literal = spec_info e node c" for c
    by (cases "spec_property e") (simp_all add: literal_def spec_info_def)
  have node: "map_of literal ''node'' = Some (VRef node)"
    by (simp add: literal_def)
  have code: "map_of literal ''code'' = None"
    by (cases "spec_property e") (simp_all add: literal_def)
  have grown: "heap st' = heap st @
      [AList.update ''code'' (VStr (Code (ReportAs host e))) literal]"
    by (simp add: st'_def)
  have run: "call (ReportAs host e) node props accept st =
      accept Error m (length (heap st)) st'"
    by (simp add: ReportAs_call m stamped st'_def)
  have info: "field (heap st') (length (heap st)) ''node'' = Some (VRef node)"
    by (simp add: grown field_def update_conv' node)
  have fresh: "field (heap st) (length (heap st)) ''node'' = None"
    by (simp add: field_def)
  have old: "take (length (heap st)) (heap st') = heap st"
    by (simp add: grown)
  have same_world: "world st' = world st"
    by (simp add: st'_def)
  have same_record: "fields_of (heap st') props = fields_of (heap st) props"
    unfolding grown using assms by (rule params_fields_append)
  have same_node: "node < length (heap st) \<longrightarrow>
       fields_of (heap st') (VRef node) = fields_of (heap st) (VRef node)"
    by (simp add: grown nth_append)
  have typed': "params_type e (heap st') props"
    unfolding grown using assms by (rule params_type_append)
  have again: "message_of host e props st' = Inr (m, st')"
    using extended_store_message [OF assms grown, of host host] by (simp add: m)
  from run node code info fresh old same_world m same_record same_node typed' again
  show ?thesis
    unfolding st'_def [symmetric] by (intro exI [of _ m] exI [of _ literal] exI [of _ st'] conjI) (rule refl st'_def | assumption)+
qed

theorem reporter_frame_witness:
  "params_type UnknownDataType
     [[(''$type'', VStr ''DataType''), (''dataTypeNames'', VArr [VStr ''BLOB'']),
       (''arguments'', VArr [])],
      [(''dataType'', VRef 0)]]
     (VRef 1) \<and>
   call (ReportAs tracing UnknownDataType) 0 (VRef 1) (noting (\<lambda>message w. w @ message))
     \<lparr>heap = [[(''$type'', VStr ''DataType''), (''dataTypeNames'', VArr [VStr ''BLOB'']),
               (''arguments'', VArr [])],
              [(''dataType'', VRef 0)]],
      world = []\<rparr> =
   Inr \<lparr>heap = [[(''$type'', VStr ''DataType''), (''dataTypeNames'', VArr [VStr ''BLOB'']),
                   (''arguments'', VArr [])],
                  [(''dataType'', VRef 0)],
                  [(''node'', VRef 0), (''code'', VStr ''SQL00013'')]],
        world = ''Unknown data type 'BLOB()'.''\<rparr> \<and>
   fields_of
     [[(''$type'', VStr ''DataType''), (''dataTypeNames'', VArr [VStr ''BLOB'']),
       (''arguments'', VArr [])],
      [(''dataType'', VRef 0)],
      [(''node'', VRef 0), (''code'', VStr ''SQL00013'')]]
     (VRef 1) = Some [(''dataType'', VRef 0)] \<and>
   fields_of
     [[(''$type'', VStr ''DataType''), (''dataTypeNames'', VArr [VStr ''BLOB'']),
       (''arguments'', VArr [])],
      [(''dataType'', VRef 0)],
      [(''node'', VRef 0), (''code'', VStr ''SQL00013'')]]
     (VRef 0) =
     Some [(''$type'', VStr ''DataType''), (''dataTypeNames'', VArr [VStr ''BLOB'']),
           (''arguments'', VArr [])]"
proof -
  let ?h = "[[(''$type'', VStr ''DataType''), (''dataTypeNames'', VArr [VStr ''BLOB'']),
              (''arguments'', VArr [])],
             [(''dataType'', VRef 0)]]"
  let ?st = "\<lparr>heap = ?h, world = [] :: string\<rparr>"
  have h: "params_type UnknownDataType (heap ?st) (VRef 1)"
    by (simp add: DataType_def NumberLiteral_def has_prop_def is_array_of_def is_string_def)
  then have h': "params_type UnknownDataType ?h (VRef 1)"
    by simp
  have "call (ReportAs tracing UnknownDataType) 0 (VRef 1)
      (noting (\<lambda>message w. w @ message)) ?st =
      Inr \<lparr>heap = ?h @ [[(''node'', VRef 0), (''code'', VStr ''SQL00013'')]],
           world = ''Unknown data type 'BLOB()'.''\<rparr>"
    by (simp add: reporter_defs message_UnknownDataType_def join_def quoted_def noting_def)
  then have run: "call (ReportAs tracing UnknownDataType) 0 (VRef 1)
      (noting (\<lambda>message w. w @ message)) ?st =
      Inr \<lparr>heap = [[(''$type'', VStr ''DataType''), (''dataTypeNames'', VArr [VStr ''BLOB'']),
                   (''arguments'', VArr [])],
                  [(''dataType'', VRef 0)],
                  [(''node'', VRef 0), (''code'', VStr ''SQL00013'')]],
        world = ''Unknown data type 'BLOB()'.''\<rparr>"
    by simp
  have f1: "fields_of
     [[(''$type'', VStr ''DataType''), (''dataTypeNames'', VArr [VStr ''BLOB'']),
       (''arguments'', VArr [])],
      [(''dataType'', VRef 0)],
      [(''node'', VRef 0), (''code'', VStr ''SQL00013'')]]
     (VRef 1) = Some [(''dataType'', VRef 0)]"
    by simp
  have f0: "fields_of
     [[(''$type'', VStr ''DataType''), (''dataTypeNames'', VArr [VStr ''BLOB'']),
       (''arguments'', VArr [])],
      [(''dataType'', VRef 0)],
      [(''node'', VRef 0), (''code'', VStr ''SQL00013'')]]
     (VRef 0) =
     Some [(''$type'', VStr ''DataType''), (''dataTypeNames'', VArr [VStr ''BLOB'']),
           (''arguments'', VArr [])]"
    by simp
  from reporter_frame [OF h, of tracing 0 "noting (\<lambda>message w. w @ message)"] h' run f1 f0
  show ?thesis
    by (intro conjI)
qed

end
